theory Spec2Isabelle
  imports Main "HOL-Library.Sublist"
begin

section \<open>The knowledge-base upload area and its service functions\<close>

text \<open>
  A shallow embedding of \<^verbatim>\<open>UploadService.ts\<close> (the service functions
  \<^verbatim>\<open>customUploadRequest\<close>, \<^verbatim>\<open>checkKnowledgeBaseNameExists\<close>,
  \<^verbatim>\<open>fetchKnowledgeBaseInfo\<close>, \<^verbatim>\<open>validateFileType\<close>) and of the
  \<^verbatim>\<open>UploadArea\<close> component that uses them (its scope-change effect, its cleanup
  and its \<^verbatim>\<open>handleChange\<close> handler).

  The component's state cells and refs are the fields of one record. Everything a
  function does to the outside (a notification, a console line, a network request, a
  call of a callback it was given) is appended to a trace. A JavaScript exception is a
  value: every procedure returns the error it threw, if any, next to the world it left.
\<close>

subsection \<open>Strings\<close>

text \<open>
  File names and media types are strings of 8-bit characters. \<^verbatim>\<open>toLowerCase\<close>
  acts on the letters A to Z, which are the only characters of this alphabet that it
  changes into a character of one of the suffixes the file-type gate tests.
\<close>

definition lower_char :: "char \<Rightarrow> char" where
  "lower_char c =
     (case map_of (zip ''ABCDEFGHIJKLMNOPQRSTUVWXYZ'' ''abcdefghijklmnopqrstuvwxyz'') c of
        Some l \<Rightarrow> l
      | None \<Rightarrow> c)"

definition toLowerCase :: "string \<Rightarrow> string" where
  "toLowerCase s = map lower_char s"

definition endsWith :: "string \<Rightarrow> string \<Rightarrow> bool" where
  "endsWith s suf = (length suf \<le> length s \<and> drop (length s - length suf) s = suf)"

subsection \<open>Values that cross the component's boundary\<close>

text \<open>
  The texts of the source are Chinese; each is a constructor here.
  \<^item> \<open>KbSwitchedText\<close>: the text of \<^verbatim>\<open>new Error(...)\<close> at lines 30 and 47 of
    UploadService.ts (knowledge base switched, upload again);
  \<^item> \<open>UploadFailedText\<close>: the text of \<^verbatim>\<open>new Error(...)\<close> at lines 57 and 63
    (upload failed).
\<close>

datatype err_text = KbSwitchedText | UploadFailedText | OtherText string

datatype js_error = JsError (err_name: string) (err_text: err_text)

text \<open>\<^verbatim>\<open>new Error(text)\<close>: an error object whose name is \<^verbatim>\<open>Error\<close>.\<close>

definition new_Error :: "err_text \<Rightarrow> js_error" where
  "new_Error t = JsError ''Error'' t"

record js_file =
  file_name :: string
  file_type :: string

datatype upload_status = StatusError | StatusDone | StatusUploading | StatusRemoved

record uploadFile =
  uid :: string
  status :: "upload_status option"
  originFileObj :: "js_file option"

type_synonym json = string

text \<open>
  The notifications of \<^verbatim>\<open>message.error\<close>:
  \<^item> \<open>UploadFailedKbSwitched name\<close>: file \<open>name\<close> failed to upload, the knowledge base
    was switched (lines 31 and 48);
  \<^item> \<open>UploadFailed name\<close>: file \<open>name\<close> failed to upload (lines 58 and 64);
  \<^item> \<open>FetchInfoFailed\<close>: fetching the knowledge base information failed, retry later
    (line 99);
  \<^item> \<open>UnsupportedFormat\<close>: only PDF, Word, PPT, Excel, MD, TXT and CSV are supported
    (line 134).
  The lines of \<^verbatim>\<open>console.error\<close>: \<open>CheckNameFailedLog\<close> (line 76) and
  \<open>FetchInfoFailedLog\<close> (line 98), each with the error it prints.
\<close>

datatype notice =
    UploadFailedKbSwitched string
  | UploadFailed string
  | FetchInfoFailed
  | UnsupportedFormat

datatype log_text = CheckNameFailedLog | FetchInfoFailedLog

datatype effect =
    MessageError notice
  | ConsoleError log_text js_error
  | Fetch string js_file string
  | UploadOnSuccess json js_file
  | UploadOnError js_error
  | InfoOnSuccess
  | InfoOnError js_error
  | OnUpload
  | OnFileSelect "js_file list"

subsection \<open>The component's state\<close>

text \<open>
  The state cells (\<^verbatim>\<open>useState\<close>) and refs (\<^verbatim>\<open>useRef\<close>) of UploadArea.
  An \<^verbatim>\<open>AbortController\<close> is an object on the heap: \<open>controllers\<close> holds the
  \<^verbatim>\<open>signal.aborted\<close> flag of every controller created so far, a controller is its
  index there, and \<open>pendingRequestRef\<close> holds such an index or \<^verbatim>\<open>null\<close>.
\<close>

record upload_area =
  fileList :: "uploadFile list"
  nameExists :: bool
  isLoading :: bool
  isKnowledgeBaseReady :: bool
  currentKnowledgeBaseRef :: string
  pendingRequestRef :: "nat option"
  prevFileListRef :: "uploadFile list"
  controllers :: "bool list"

record world =
  trace :: "effect list"
  area :: upload_area

text \<open>
  A callback handed to a function is any code of the caller: it may change the state
  and it may throw. A procedure runs in a world and may throw as well.
\<close>

type_synonym callback = "upload_area \<Rightarrow> js_error option \<times> upload_area"

type_synonym proc = "world \<Rightarrow> js_error option \<times> world"

definition skip :: proc where
  "skip w = (None, w)"

definition throw :: "js_error \<Rightarrow> proc" where
  "throw e w = (Some e, w)"

definition emit :: "effect \<Rightarrow> proc" where
  "emit ev w = (None, w\<lparr>trace := trace w @ [ev]\<rparr>)"

definition modify :: "(upload_area \<Rightarrow> upload_area) \<Rightarrow> proc" where
  "modify f w = (None, w\<lparr>area := f (area w)\<rparr>)"

text \<open>Calling a callback: the call is recorded, then the callback runs.\<close>

definition invoke :: "effect \<Rightarrow> callback \<Rightarrow> proc" where
  "invoke ev cb w =
     (case cb (area w) of
        (r, st) \<Rightarrow> (r, w\<lparr>trace := trace w @ [ev], area := st\<rparr>))"

text \<open>Two statements in sequence: the second does not run when the first throws.\<close>

definition seq :: "proc \<Rightarrow> proc \<Rightarrow> proc" where
  "seq p q w =
     (case p w of
        (Some e, w1) \<Rightarrow> (Some e, w1)
      | (None, w1) \<Rightarrow> q w1)"

definition cond :: "(world \<Rightarrow> bool) \<Rightarrow> proc \<Rightarrow> proc \<Rightarrow> proc" where
  "cond b p q w = (if b w then p w else q w)"

definition try_catch :: "proc \<Rightarrow> (js_error \<Rightarrow> proc) \<Rightarrow> proc" where
  "try_catch p h w =
     (case p w of
        (Some e, w1) \<Rightarrow> h e w1
      | (None, w1) \<Rightarrow> (None, w1))"

subsection \<open>validateFileType\<close>

definition validTypes :: "string list" where
  "validTypes =
     [''application/pdf'',
      ''application/vnd.openxmlformats-officedocument.wordprocessingml.document'',
      ''application/vnd.openxmlformats-officedocument.presentationml.presentation'',
      ''application/vnd.openxmlformats-officedocument.spreadsheetml.sheet'',
      ''text/markdown'',
      ''text/plain'',
      ''text/csv'',
      ''application/csv'']"

text \<open>
  The value of \<^verbatim>\<open>isValidType\<close> at line 133: the media type is in the list, or else
  the lower-cased name ends in one of three suffixes.
\<close>

definition isValidType :: "js_file \<Rightarrow> bool" where
  "isValidType f =
     (if file_type f \<in> set validTypes then True
      else let name = toLowerCase (file_name f) in
        endsWith name ''.md'' \<or> endsWith name ''.markdown'' \<or> endsWith name ''.csv'')"

definition validateFileType :: "js_file \<Rightarrow> world \<Rightarrow> bool \<times> world" where
  "validateFileType f w =
     (if \<not> isValidType f
      then (False, w\<lparr>trace := trace w @ [MessageError UnsupportedFormat]\<rparr>)
      else (True, w))"

subsection \<open>fetchKnowledgeBaseInfo\<close>

text \<open>
  \<^verbatim>\<open>abortController.signal.aborted\<close>. A controller handed to a function is an
  object that exists, that is, an index below the length of \<open>controllers\<close>.
\<close>

definition signal_aborted :: "upload_area \<Rightarrow> nat \<Rightarrow> bool" where
  "signal_aborted st abortController = controllers st ! abortController"

text \<open>
  The function has no \<^verbatim>\<open>await\<close>: its body runs to the end when it is called. The
  only statement of the \<^verbatim>\<open>try\<close> block that can throw is the call of
  \<^verbatim>\<open>onSuccess\<close>. An error thrown by \<^verbatim>\<open>onError\<close> inside the handler leaves
  the function (the promise it returns is rejected).
\<close>

definition fetchKnowledgeBaseInfo ::
  "string \<Rightarrow> nat \<Rightarrow> callback \<Rightarrow> (js_error \<Rightarrow> callback) \<Rightarrow> proc" where
  "fetchKnowledgeBaseInfo indexName abortController onSuccess onError =
     try_catch
       (cond (\<lambda>w. \<not> signal_aborted (area w) abortController \<and>
                 indexName = currentKnowledgeBaseRef (area w))
          (invoke InfoOnSuccess onSuccess)
          skip)
       (\<lambda>err.
          cond (\<lambda>w. err_name err \<noteq> ''AbortError'' \<and>
                  indexName = currentKnowledgeBaseRef (area w))
            (seq (emit (ConsoleError FetchInfoFailedLog err))
              (seq (emit (MessageError FetchInfoFailed))
                (invoke (InfoOnError err) (onError err))))
            skip)"

subsection \<open>checkKnowledgeBaseNameExists\<close>

text \<open>
  \<^verbatim>\<open>knowledgeBaseService.checkKnowledgeBaseNameExists\<close> is not part of these
  sources: the service is a parameter, which answers with a boolean or throws. The
  result is what the returned promise settles to: \<open>Inr\<close> its value, \<open>Inl\<close> a rejection.
  The function reads nothing of the state, so what other handlers do while it waits for
  the service is left out.
\<close>

definition checkKnowledgeBaseNameExists ::
  "(string \<Rightarrow> js_error + bool) \<Rightarrow> string \<Rightarrow> world \<Rightarrow> (js_error + bool) \<times> world" where
  "checkKnowledgeBaseNameExists service knowledgeBaseName w =
     (case service knowledgeBaseName of
        Inr found \<Rightarrow> (Inr found, w)
      | Inl err \<Rightarrow>
          (Inr False, w\<lparr>trace := trace w @ [ConsoleError CheckNameFailedLog err]\<rparr>))"

subsection \<open>customUploadRequest\<close>

text \<open>The fields \<^verbatim>\<open>onSuccess\<close>, \<^verbatim>\<open>onError\<close> and \<^verbatim>\<open>file\<close> of \<^verbatim>\<open>options\<close>.\<close>

record upload_options =
  opt_onSuccess :: "json \<Rightarrow> js_file \<Rightarrow> callback"
  opt_onError :: "js_error \<Rightarrow> callback"
  opt_file :: js_file

text \<open>
  What the network and the rest of the page do while the function waits. At each
  \<^verbatim>\<open>await\<close> other handlers run and may change the state (\<open>fetch_env\<close> while
  \<^verbatim>\<open>fetch\<close> is pending, \<open>json_env\<close> while \<^verbatim>\<open>response.json()\<close> is).
  \<^verbatim>\<open>fetch\<close> throws or gives a response with its \<^verbatim>\<open>ok\<close> flag;
  \<^verbatim>\<open>response.json()\<close> throws or gives the parsed body.
\<close>

record network =
  fetch_env :: "upload_area \<Rightarrow> upload_area"
  fetch_result :: "js_error + bool"
  json_env :: "upload_area \<Rightarrow> upload_area"
  json_result :: "js_error + json"

definition await :: "(upload_area \<Rightarrow> upload_area) \<Rightarrow> proc" where
  "await env = modify env"

text \<open>
  \<open>Fetch url f name\<close> is the POST of a form with the fields \<^verbatim>\<open>file\<close> and
  \<^verbatim>\<open>index_name\<close>. A \<^verbatim>\<open>return\<close> inside the \<^verbatim>\<open>try\<close> block ends the function,
  and nothing follows the \<^verbatim>\<open>try\<close> statement, so it is the end of the block here.
\<close>

definition customUploadRequest ::
  "upload_options \<Rightarrow> string \<Rightarrow> bool \<Rightarrow> string \<Rightarrow> string \<Rightarrow> network \<Rightarrow> proc" where
  "customUploadRequest options effectiveUploadUrl isCreatingMode newKnowledgeBaseName
       indexName net =
     (let f = opt_file options;
          effectiveIndexName = (if isCreatingMode then newKnowledgeBaseName else indexName);
          switched = (\<lambda>w. effectiveIndexName \<noteq> currentKnowledgeBaseRef (area w) \<and>
                          \<not> isCreatingMode);
          reject_switched =
            seq (invoke (UploadOnError (new_Error KbSwitchedText))
                   (opt_onError options (new_Error KbSwitchedText)))
                (emit (MessageError (UploadFailedKbSwitched (file_name f))));
          reject_failed =
            seq (invoke (UploadOnError (new_Error UploadFailedText))
                   (opt_onError options (new_Error UploadFailedText)))
                (emit (MessageError (UploadFailed (file_name f))))
      in cond switched reject_switched
           (try_catch
              (seq (emit (Fetch effectiveUploadUrl f effectiveIndexName))
                (seq (await (fetch_env net))
                  (case fetch_result net of
                     Inl e \<Rightarrow> throw e
                   | Inr ok \<Rightarrow>
                       cond switched reject_switched
                         (if ok then
                            seq (await (json_env net))
                              (case json_result net of
                                 Inl e \<Rightarrow> throw e
                               | Inr result \<Rightarrow>
                                   invoke (UploadOnSuccess result f)
                                     (opt_onSuccess options result f))
                          else reject_failed))))
              (\<lambda>err.
                 cond (\<lambda>w. effectiveIndexName = currentKnowledgeBaseRef (area w) \<or>
                         isCreatingMode)
                   reject_failed
                   skip)))"

subsection \<open>The UploadArea component\<close>

definition initial_area :: upload_area where
  "initial_area =
     \<lparr>fileList = [], nameExists = False, isLoading = False, isKnowledgeBaseReady = False,
      currentKnowledgeBaseRef = [], pendingRequestRef = None, prevFileListRef = [],
      controllers = []\<rparr>"

definition initial_world :: world where
  "initial_world = \<lparr>trace = [], area = initial_area\<rparr>"

definition resetAllStates :: "upload_area \<Rightarrow> upload_area" where
  "resetAllStates st =
     st\<lparr>fileList := [], nameExists := False, isLoading := True,
        isKnowledgeBaseReady := False\<rparr>"

text \<open>\<^verbatim>\<open>new AbortController()\<close> and \<^verbatim>\<open>abort()\<close>.\<close>

definition new_AbortController :: "upload_area \<Rightarrow> nat \<times> upload_area" where
  "new_AbortController st =
     (length (controllers st), st\<lparr>controllers := controllers st @ [False]\<rparr>)"

definition abort :: "nat \<Rightarrow> upload_area \<Rightarrow> upload_area" where
  "abort c st = st\<lparr>controllers := (controllers st)[c := True]\<rparr>"

text \<open>Lines 75 to 78 of the effect, and the same statements of its cleanup (113 to 116).\<close>

definition cancelPending :: "upload_area \<Rightarrow> upload_area" where
  "cancelPending st =
     (case pendingRequestRef st of
        Some c \<Rightarrow> (abort c st)\<lparr>pendingRequestRef := None\<rparr>
      | None \<Rightarrow> st)"

text \<open>The two closures the effect hands to \<^verbatim>\<open>fetchKnowledgeBaseInfo\<close>.\<close>

definition infoReady :: callback where
  "infoReady st = (None, st\<lparr>isKnowledgeBaseReady := True, isLoading := False\<rparr>)"

definition infoNotReady :: "js_error \<Rightarrow> callback" where
  "infoNotReady err st = (None, st\<lparr>isKnowledgeBaseReady := False, isLoading := False\<rparr>)"

text \<open>
  The effect on \<^verbatim>\<open>[indexName, isCreatingMode, resetAllStates]\<close> (lines 68 to 118).
  The boolean says whether the run returned a cleanup function. The promise of
  \<^verbatim>\<open>fetchKnowledgeBaseInfo\<close> is dropped.
\<close>

definition scopeEffect :: "string \<Rightarrow> bool \<Rightarrow> world \<Rightarrow> bool \<times> world" where
  "scopeEffect indexName isCreatingMode w =
     (if indexName = currentKnowledgeBaseRef (area w) then (False, w)
      else
        let st1 = cancelPending (area w);
            st2 = resetAllStates st1;
            st3 = st2\<lparr>currentKnowledgeBaseRef := indexName\<rparr>
        in if indexName = [] \<or> isCreatingMode
           then (False, w\<lparr>area := st3\<lparr>isKnowledgeBaseReady := True, isLoading := False\<rparr>\<rparr>)
           else
             (case new_AbortController st3 of
                (abortController, st4) \<Rightarrow>
                  (True,
                   snd (fetchKnowledgeBaseInfo indexName abortController infoReady
                          infoNotReady
                          (w\<lparr>area := st4\<lparr>pendingRequestRef := Some abortController\<rparr>\<rparr>)))))"

definition scopeCleanup :: "world \<Rightarrow> world" where
  "scopeCleanup w = w\<lparr>area := cancelPending (area w)\<rparr>"

text \<open>
  A sequence of scope changes delivered to the component: for each new pair of props the
  framework runs the cleanup of the effect's previous run, if that run returned one, and
  then the effect.
\<close>

fun deliver :: "(string \<times> bool) list \<Rightarrow> bool \<times> world \<Rightarrow> bool \<times> world" where
  "deliver [] m = m"
| "deliver ((indexName, isCreatingMode) # changes) (has_cleanup, w) =
     deliver changes
       (scopeEffect indexName isCreatingMode (if has_cleanup then scopeCleanup w else w))"

text \<open>The resolution requests that are live: the controllers that are not aborted.\<close>

definition live_requests :: "upload_area \<Rightarrow> nat" where
  "live_requests st = length (filter (\<lambda>aborted. \<not> aborted) (controllers st))"

text \<open>
  The invariant of the two refs: every controller is aborted, but the one that
  \<open>pendingRequestRef\<close> holds.
\<close>

definition others_aborted :: "upload_area \<Rightarrow> bool" where
  "others_aborted st =
     (case pendingRequestRef st of
        None \<Rightarrow> list_all (\<lambda>aborted. aborted) (controllers st)
      | Some c \<Rightarrow>
          c < length (controllers st) \<and>
          list_all (\<lambda>aborted. aborted) ((controllers st)[c := True]))"

text \<open>The effect on \<^verbatim>\<open>[fileList]\<close> (lines 55 to 57).\<close>

definition syncPrevFileList :: "upload_area \<Rightarrow> upload_area" where
  "syncPrevFileList st = st\<lparr>prevFileListRef := fileList st\<rparr>"

text \<open>
  \<^verbatim>\<open>handleChange\<close> (lines 155 to 183), with the props its closure holds.
  \<^verbatim>\<open>onUpload\<close> is an optional prop.
\<close>

definition handleChange ::
  "bool \<Rightarrow> string \<Rightarrow> callback option \<Rightarrow> (js_file list \<Rightarrow> callback) \<Rightarrow>
   uploadFile list \<Rightarrow> proc" where
  "handleChange isCreatingMode indexName onUpload onFileSelect newFileList =
     cond (\<lambda>w. isCreatingMode \<or> indexName = currentKnowledgeBaseRef (area w))
       (seq (modify (\<lambda>st. st\<lparr>fileList := newFileList\<rparr>))
         (\<lambda>w.
            let prevFileList = prevFileListRef (area w);
                uploadWasInProgress =
                  list_ex (\<lambda>f. status f = Some StatusUploading) prevFileList;
                uploadIsNowFinished =
                  (length newFileList > 0 \<and>
                   \<not> list_ex (\<lambda>f. status f = Some StatusUploading) newFileList);
                files = List.map_filter originFileObj newFileList
            in seq
                 (if uploadWasInProgress \<and> uploadIsNowFinished
                  then (case onUpload of Some cb \<Rightarrow> invoke OnUpload cb | None \<Rightarrow> skip)
                  else skip)
                 (if length files > 0
                  then invoke (OnFileSelect files) (onFileSelect files)
                  else skip)
                 w))
       skip"

subsection \<open>Reading a trace\<close>

text \<open>What a run added to the trace, and the network requests among the effects.\<close>

definition effects_since :: "world \<Rightarrow> world \<Rightarrow> effect list" where
  "effects_since w w' = drop (length (trace w)) (trace w')"

fun network_call :: "effect \<Rightarrow> bool" where
  "network_call (Fetch url f name) = True"
| "network_call ev = False"

fun success_call :: "effect \<Rightarrow> bool" where
  "success_call (UploadOnSuccess result f) = True"
| "success_call ev = False"

text \<open>What one call of \<^verbatim>\<open>customUploadRequest\<close> adds to the trace.\<close>

definition upload_effects ::
  "upload_options \<Rightarrow> string \<Rightarrow> bool \<Rightarrow> string \<Rightarrow> string \<Rightarrow> network \<Rightarrow> world \<Rightarrow>
   effect list" where
  "upload_effects options effectiveUploadUrl isCreatingMode newKnowledgeBaseName indexName
       net w =
     effects_since w
       (snd (customUploadRequest options effectiveUploadUrl isCreatingMode
               newKnowledgeBaseName indexName net w))"

subsection \<open>Callers and surroundings of the examples\<close>

text \<open>
  A callback that returns at once and one that throws; a file-selection callback and
  upload options whose callbacks return at once; the component after its first render on a scope; another handler
  that moves the scope ref while a request is awaited.
\<close>

definition returns :: callback where
  "returns st = (None, st)"

definition throws :: "js_error \<Rightarrow> callback" where
  "throws e st = (Some e, st)"

definition quiet_select :: "js_file list \<Rightarrow> callback" where
  "quiet_select files = returns"

definition quiet_options :: "js_file \<Rightarrow> upload_options" where
  "quiet_options f =
     \<lparr>opt_onSuccess = (\<lambda>result f. returns), opt_onError = (\<lambda>err. returns), opt_file = f\<rparr>"

definition mounted_on :: "string \<Rightarrow> world" where
  "mounted_on scope = snd (scopeEffect scope False initial_world)"

definition scope_becomes :: "string \<Rightarrow> upload_area \<Rightarrow> upload_area" where
  "scope_becomes scope st = st\<lparr>currentKnowledgeBaseRef := scope\<rparr>"

section \<open>Properties\<close>

subsection \<open>Strings\<close>

lemma endsWith_suffix: "endsWith s suf = suffix suf s"
proof
  assume "endsWith s suf"
  then have "s = take (length s - length suf) s @ suf"
    by (metis append_take_drop_id endsWith_def)
  then show "suffix suf s"
    by (metis suffixI)
next
  assume "suffix suf s"
  then obtain ys where "s = ys @ suf"
    by (auto simp: suffix_def)
  then show "endsWith s suf"
    by (simp add: endsWith_def)
qed

lemma toLowerCase_append: "toLowerCase (xs @ ys) = toLowerCase xs @ toLowerCase ys"
  by (simp add: toLowerCase_def)

lemma endsWith_toLowerCase:
  assumes "endsWith s suf" and "toLowerCase suf = suf"
  shows "endsWith (toLowerCase s) suf"
proof -
  from assms(1) obtain ys where "s = ys @ suf"
    by (auto simp: endsWith_suffix suffix_def)
  then have "toLowerCase s = toLowerCase ys @ suf"
    by (simp add: toLowerCase_append assms(2))
  then show ?thesis
    by (simp add: endsWith_suffix suffix_def)
qed

lemma toLowerCase_md: "toLowerCase ''.md'' = ''.md''"
  by (simp add: toLowerCase_def lower_char_def)

lemma toLowerCase_upper_md: "toLowerCase ''.MD'' = ''.md''"
  by (simp add: toLowerCase_def lower_char_def)

lemma toLowerCase_upper_markdown: "toLowerCase ''.MARKDOWN'' = ''.markdown''"
  by (simp add: toLowerCase_def lower_char_def)

lemma toLowerCase_upper_csv: "toLowerCase ''.CSV'' = ''.csv''"
  by (simp add: toLowerCase_def lower_char_def)

lemma endsWith_append: "endsWith (xs @ suf) suf"
  by (simp add: endsWith_def)

subsection \<open>The file-type gate\<close>

text \<open>
  C8, as the code has it. On the test inputs of the file-type gate: a file whose media
  type is \<^verbatim>\<open>text/csv\<close> is accepted and nothing is notified; a file whose media type
  is empty and whose name ends in \<^verbatim>\<open>.md\<close> is accepted and nothing is notified; a
  file whose media type is \<^verbatim>\<open>image/png\<close> is rejected, with exactly one error
  notification, when its name lower-cased ends in none of \<^verbatim>\<open>.md\<close>,
  \<^verbatim>\<open>.markdown\<close>, \<^verbatim>\<open>.csv\<close>. The gate lower-cases the name before it tests
  the suffix, so a file whose name ends in \<^verbatim>\<open>.MD\<close> is accepted whatever its media
  type, \<^verbatim>\<open>image/png\<close> included.
\<close>

theorem validateFileType_test_inputs:
  "(file_type f = ''text/csv'' \<longrightarrow> validateFileType f w = (True, w)) \<and>
   (file_type f = '''' \<and> endsWith (file_name f) ''.md'' \<longrightarrow>
      validateFileType f w = (True, w)) \<and>
   (file_type f = ''image/png'' \<and>
    \<not> endsWith (toLowerCase (file_name f)) ''.md'' \<and>
    \<not> endsWith (toLowerCase (file_name f)) ''.markdown'' \<and>
    \<not> endsWith (toLowerCase (file_name f)) ''.csv'' \<longrightarrow>
      validateFileType f w = (False, w\<lparr>trace := trace w @ [MessageError UnsupportedFormat]\<rparr>)) \<and>
   (file_name f = stem @ ''.MD'' \<longrightarrow>
      validateFileType f w = (True, w))"
proof (intro conjI impI)
  assume "file_type f = ''text/csv''"
  then show "validateFileType f w = (True, w)"
    by (simp add: validateFileType_def isValidType_def validTypes_def)
next
  assume a: "file_type f = '''' \<and> endsWith (file_name f) ''.md''"
  then have "endsWith (toLowerCase (file_name f)) ''.md''"
    by (simp add: endsWith_toLowerCase toLowerCase_md)
  then show "validateFileType f w = (True, w)"
    by (simp add: validateFileType_def isValidType_def)
next
  assume "file_type f = ''image/png'' \<and>
    \<not> endsWith (toLowerCase (file_name f)) ''.md'' \<and>
    \<not> endsWith (toLowerCase (file_name f)) ''.markdown'' \<and>
    \<not> endsWith (toLowerCase (file_name f)) ''.csv''"
  then show "validateFileType f w =
      (False, w\<lparr>trace := trace w @ [MessageError UnsupportedFormat]\<rparr>)"
    by (simp add: validateFileType_def isValidType_def validTypes_def)
next
  assume "file_name f = stem @ ''.MD''"
  then have "toLowerCase (file_name f) = toLowerCase stem @ ''.md''"
    by (simp add: toLowerCase_append toLowerCase_upper_md)
  then have "endsWith (toLowerCase (file_name f)) ''.md''"
    by (simp add: endsWith_append)
  then show "validateFileType f w = (True, w)"
    by (simp add: validateFileType_def isValidType_def)
qed

theorem validateFileType_test_inputs_witness:
  "validateFileType \<lparr>file_name = ''data.csv'', file_type = ''text/csv''\<rparr> initial_world
     = (True, initial_world) \<and>
   endsWith ''notes.md'' ''.md'' \<and>
   validateFileType \<lparr>file_name = ''notes.md'', file_type = ''''\<rparr> initial_world
     = (True, initial_world) \<and>
   \<not> endsWith (toLowerCase ''Photo.PNG'') ''.md'' \<and>
   \<not> endsWith (toLowerCase ''Photo.PNG'') ''.markdown'' \<and>
   \<not> endsWith (toLowerCase ''Photo.PNG'') ''.csv'' \<and>
   validateFileType \<lparr>file_name = ''Photo.PNG'', file_type = ''image/png''\<rparr> initial_world
     = (False, initial_world\<lparr>trace := [MessageError UnsupportedFormat]\<rparr>) \<and>
   ''README.MD'' = ''README'' @ ''.MD'' \<and>
   validateFileType \<lparr>file_name = ''README.MD'', file_type = ''image/png''\<rparr> initial_world
     = (True, initial_world)"
  using validateFileType_test_inputs
          [of "\<lparr>file_name = ''data.csv'', file_type = ''text/csv''\<rparr>" initial_world]
        validateFileType_test_inputs
          [of "\<lparr>file_name = ''notes.md'', file_type = ''''\<rparr>" initial_world]
        validateFileType_test_inputs
          [of "\<lparr>file_name = ''Photo.PNG'', file_type = ''image/png''\<rparr>" initial_world]
        validateFileType_test_inputs
          [of "\<lparr>file_name = ''README.MD'', file_type = ''image/png''\<rparr>" initial_world "''README''"]
  by (simp add: endsWith_def toLowerCase_def lower_char_def initial_world_def)

text \<open>
  C8, as the claim states it, fails: the name \<^verbatim>\<open>PHOTO.MD\<close> ends in none of
  \<^verbatim>\<open>.md\<close>, \<^verbatim>\<open>.markdown\<close>, \<^verbatim>\<open>.csv\<close> as written, the media type is
  \<^verbatim>\<open>image/png\<close>, and the gate accepts the file and notifies nothing.
\<close>

theorem validateFileType_upper_case_suffix_accepted:
  "validateFileType \<lparr>file_name = ''PHOTO.MD'', file_type = ''image/png''\<rparr> initial_world
     = (True, initial_world)"
  by (simp add: validateFileType_def isValidType_def validTypes_def endsWith_def
        toLowerCase_def lower_char_def)

subsection \<open>The name-existence check\<close>

text \<open>
  C9. The name-existence check is fail-open: for every candidate name, when the service
  call throws, \<^verbatim>\<open>checkKnowledgeBaseNameExists\<close> logs the error on the console and
  resolves to false. Nothing is thrown to the caller and no other effect is produced.
\<close>

theorem checkKnowledgeBaseNameExists_fail_open:
  "service knowledgeBaseName = Inl err \<Longrightarrow>
   checkKnowledgeBaseNameExists service knowledgeBaseName w =
     (Inr False, w\<lparr>trace := trace w @ [ConsoleError CheckNameFailedLog err]\<rparr>)"
  by (simp add: checkKnowledgeBaseNameExists_def)

theorem checkKnowledgeBaseNameExists_fail_open_witness:
  "(\<lambda>n. Inl (JsError ''TypeError'' (OtherText ''Failed to fetch''))) ''docs'' =
     (Inl (JsError ''TypeError'' (OtherText ''Failed to fetch'')) :: js_error + bool) \<and>
   checkKnowledgeBaseNameExists
     (\<lambda>n. Inl (JsError ''TypeError'' (OtherText ''Failed to fetch''))) ''docs'' initial_world =
     (Inr False,
      initial_world\<lparr>trace :=
        [ConsoleError CheckNameFailedLog (JsError ''TypeError'' (OtherText ''Failed to fetch''))]\<rparr>)"
  using checkKnowledgeBaseNameExists_fail_open
    [of "\<lambda>n. Inl (JsError ''TypeError'' (OtherText ''Failed to fetch''))" "''docs''"
        "JsError ''TypeError'' (OtherText ''Failed to fetch'')" initial_world]
  by (simp add: initial_world_def)

subsection \<open>Resolution of the scope\<close>

text \<open>
  C2. A stale resolution completion is a silent no-op. Whatever the callbacks are, when
  the cancellation signal is set or the scope token \<open>indexName\<close> differs from the
  component's last seen scope at the time of arrival, \<^verbatim>\<open>fetchKnowledgeBaseInfo\<close>
  leaves the world as it found it: the readiness and loading flags keep their values,
  no callback runs, nothing is notified or logged, nothing is thrown. Conversely a
  completion that changes anything carries the last seen scope (and a signal that is
  not set).
\<close>

theorem fetchKnowledgeBaseInfo_stale_noop:
  "(signal_aborted (area w) abortController \<or> indexName \<noteq> currentKnowledgeBaseRef (area w) \<longrightarrow>
      fetchKnowledgeBaseInfo indexName abortController onSuccess onError w = (None, w)) \<and>
   (fetchKnowledgeBaseInfo indexName abortController onSuccess onError w \<noteq> (None, w) \<longrightarrow>
      indexName = currentKnowledgeBaseRef (area w) \<and> \<not> signal_aborted (area w) abortController)"
  by (auto simp: fetchKnowledgeBaseInfo_def try_catch_def cond_def skip_def)

theorem fetchKnowledgeBaseInfo_stale_noop_witness:
  "signal_aborted (area (initial_world\<lparr>area := initial_area\<lparr>currentKnowledgeBaseRef := ''a'', controllers := [True]\<rparr>\<rparr>)) 0 \<and>
   fetchKnowledgeBaseInfo ''a'' 0 infoReady infoNotReady
     (initial_world\<lparr>area := initial_area\<lparr>currentKnowledgeBaseRef := ''a'', controllers := [True]\<rparr>\<rparr>)
     = (None, initial_world\<lparr>area := initial_area\<lparr>currentKnowledgeBaseRef := ''a'', controllers := [True]\<rparr>\<rparr>) \<and>
   ''a'' \<noteq> currentKnowledgeBaseRef (area (initial_world\<lparr>area := initial_area\<lparr>currentKnowledgeBaseRef := ''b'', controllers := [False]\<rparr>\<rparr>)) \<and>
   fetchKnowledgeBaseInfo ''a'' 0 infoReady infoNotReady
     (initial_world\<lparr>area := initial_area\<lparr>currentKnowledgeBaseRef := ''b'', controllers := [False]\<rparr>\<rparr>)
     = (None, initial_world\<lparr>area := initial_area\<lparr>currentKnowledgeBaseRef := ''b'', controllers := [False]\<rparr>\<rparr>) \<and>
   fetchKnowledgeBaseInfo ''a'' 0 infoReady infoNotReady
     (initial_world\<lparr>area := initial_area\<lparr>currentKnowledgeBaseRef := ''a'', controllers := [False]\<rparr>\<rparr>)
     \<noteq> (None, initial_world\<lparr>area := initial_area\<lparr>currentKnowledgeBaseRef := ''a'', controllers := [False]\<rparr>\<rparr>) \<and>
   ''a'' = currentKnowledgeBaseRef (area (initial_world\<lparr>area := initial_area\<lparr>currentKnowledgeBaseRef := ''a'', controllers := [False]\<rparr>\<rparr>)) \<and>
   \<not> signal_aborted (area (initial_world\<lparr>area := initial_area\<lparr>currentKnowledgeBaseRef := ''a'', controllers := [False]\<rparr>\<rparr>)) 0"
proof -
  have applies:
    "fetchKnowledgeBaseInfo ''a'' 0 infoReady infoNotReady
       (initial_world\<lparr>area := initial_area\<lparr>currentKnowledgeBaseRef := ''a'', controllers := [False]\<rparr>\<rparr>)
     \<noteq> (None, initial_world\<lparr>area := initial_area\<lparr>currentKnowledgeBaseRef := ''a'', controllers := [False]\<rparr>\<rparr>)"
    by (simp add: fetchKnowledgeBaseInfo_def try_catch_def cond_def invoke_def infoReady_def
          signal_aborted_def initial_world_def initial_area_def)
  show ?thesis
    using applies
      fetchKnowledgeBaseInfo_stale_noop
       [of "initial_world\<lparr>area := initial_area\<lparr>currentKnowledgeBaseRef := ''a'', controllers := [True]\<rparr>\<rparr>"
           0 "''a''" infoReady infoNotReady]
      fetchKnowledgeBaseInfo_stale_noop
       [of "initial_world\<lparr>area := initial_area\<lparr>currentKnowledgeBaseRef := ''b'', controllers := [False]\<rparr>\<rparr>"
           0 "''a''" infoReady infoNotReady]
      fetchKnowledgeBaseInfo_stale_noop
       [of "initial_world\<lparr>area := initial_area\<lparr>currentKnowledgeBaseRef := ''a'', controllers := [False]\<rparr>\<rparr>"
           0 "''a''" infoReady infoNotReady]
    by (simp add: signal_aborted_def initial_world_def initial_area_def)
qed

text \<open>
  C10, as the code has it. For every input \<^verbatim>\<open>fetchKnowledgeBaseInfo\<close> performs no
  network call, and it invokes \<^verbatim>\<open>onSuccess\<close> exactly once when the abort signal is
  not set and \<open>indexName\<close> is the current scope ref at call time, and not at all
  otherwise. When the signal is set or the scope differs it does nothing at all. When
  the call of \<^verbatim>\<open>onSuccess\<close> returns normally, that call is all it does: it never
  invokes \<^verbatim>\<open>onError\<close>, notifies nothing, logs nothing and throws nothing. The
  failure branch is reached only when \<^verbatim>\<open>onSuccess\<close> itself throws.
\<close>

theorem fetchKnowledgeBaseInfo_no_failure:
  "filter network_call
      (effects_since w (snd (fetchKnowledgeBaseInfo indexName abortController onSuccess onError w)))
     = [] \<and>
   count_list
      (effects_since w (snd (fetchKnowledgeBaseInfo indexName abortController onSuccess onError w)))
      InfoOnSuccess
     = (if \<not> signal_aborted (area w) abortController \<and>
           indexName = currentKnowledgeBaseRef (area w)
        then 1 else 0) \<and>
   (signal_aborted (area w) abortController \<or> indexName \<noteq> currentKnowledgeBaseRef (area w) \<longrightarrow>
      fetchKnowledgeBaseInfo indexName abortController onSuccess onError w = (None, w)) \<and>
   (fst (onSuccess (area w)) = None \<longrightarrow>
      fetchKnowledgeBaseInfo indexName abortController onSuccess onError w =
        (if \<not> signal_aborted (area w) abortController \<and>
            indexName = currentKnowledgeBaseRef (area w)
         then (None, w\<lparr>trace := trace w @ [InfoOnSuccess], area := snd (onSuccess (area w))\<rparr>)
         else (None, w)))"
  by (auto simp: fetchKnowledgeBaseInfo_def try_catch_def cond_def skip_def invoke_def seq_def
        emit_def effects_since_def split: prod.splits option.splits)

theorem fetchKnowledgeBaseInfo_no_failure_witness:
  "fst (infoReady (area (initial_world\<lparr>area := initial_area\<lparr>currentKnowledgeBaseRef := ''kb'', controllers := [False]\<rparr>\<rparr>))) = None \<and>
   fetchKnowledgeBaseInfo ''kb'' 0 infoReady infoNotReady
     (initial_world\<lparr>area := initial_area\<lparr>currentKnowledgeBaseRef := ''kb'', controllers := [False]\<rparr>\<rparr>)
   = (None,
      \<lparr>trace = [InfoOnSuccess],
       area = initial_area\<lparr>currentKnowledgeBaseRef := ''kb'', controllers := [False],
                isKnowledgeBaseReady := True, isLoading := False\<rparr>\<rparr>) \<and>
   ''kb'' \<noteq> currentKnowledgeBaseRef (area (initial_world\<lparr>area := initial_area\<lparr>currentKnowledgeBaseRef := ''other'', controllers := [False]\<rparr>\<rparr>)) \<and>
   fetchKnowledgeBaseInfo ''kb'' 0 infoReady infoNotReady
     (initial_world\<lparr>area := initial_area\<lparr>currentKnowledgeBaseRef := ''other'', controllers := [False]\<rparr>\<rparr>)
   = (None, initial_world\<lparr>area := initial_area\<lparr>currentKnowledgeBaseRef := ''other'', controllers := [False]\<rparr>\<rparr>)"
  using fetchKnowledgeBaseInfo_no_failure
     [of "initial_world\<lparr>area := initial_area\<lparr>currentKnowledgeBaseRef := ''kb'', controllers := [False]\<rparr>\<rparr>"
         "''kb''" 0 infoReady infoNotReady]
    fetchKnowledgeBaseInfo_no_failure
     [of "initial_world\<lparr>area := initial_area\<lparr>currentKnowledgeBaseRef := ''other'', controllers := [False]\<rparr>\<rparr>"
         "''kb''" 0 infoReady infoNotReady]
  by (simp add: infoReady_def signal_aborted_def initial_world_def initial_area_def)

text \<open>
  C10, as the claim states it, fails: the failure branch is reachable. With a live
  signal and a matching scope, an \<^verbatim>\<open>onSuccess\<close> that throws an error other than an
  \<^verbatim>\<open>AbortError\<close> sends the function into its handler, which logs, notifies and
  invokes \<^verbatim>\<open>onError\<close>; with the component's own error callback the outcome is
  "not ready".
\<close>

theorem fetchKnowledgeBaseInfo_failure_reached:
  "fetchKnowledgeBaseInfo ''kb'' 0
     (throws (JsError ''Error'' (OtherText ''boom''))) infoNotReady
     (initial_world\<lparr>area := initial_area\<lparr>currentKnowledgeBaseRef := ''kb'', controllers := [False],
         isLoading := True\<rparr>\<rparr>)
   = (None,
      \<lparr>trace = [InfoOnSuccess,
                ConsoleError FetchInfoFailedLog (JsError ''Error'' (OtherText ''boom'')),
                MessageError FetchInfoFailed,
                InfoOnError (JsError ''Error'' (OtherText ''boom''))],
       area = initial_area\<lparr>currentKnowledgeBaseRef := ''kb'', controllers := [False],
                isKnowledgeBaseReady := False, isLoading := False\<rparr>\<rparr>)"
  by (simp add: fetchKnowledgeBaseInfo_def try_catch_def cond_def invoke_def seq_def emit_def
        infoNotReady_def throws_def signal_aborted_def initial_world_def initial_area_def)

subsection \<open>Scope changes\<close>

lemma filter_live_update:
  "list_all (\<lambda>aborted. aborted) (xs[c := True]) \<Longrightarrow>
   length (filter (\<lambda>aborted. \<not> aborted) xs) \<le> 1"
proof (induction xs arbitrary: c)
  case Nil
  then show ?case by simp
next
  case (Cons x xs)
  show ?case
  proof (cases c)
    case 0
    with Cons.prems have "list_all (\<lambda>aborted. aborted) xs" by simp
    then have "filter (\<lambda>aborted. \<not> aborted) xs = []"
      by (simp add: list_all_iff filter_empty_conv)
    then show ?thesis by simp
  next
    case (Suc n)
    with Cons.prems have "x" and "list_all (\<lambda>aborted. aborted) (xs[n := True])"
      by simp_all
    with Cons.IH [of n] show ?thesis by simp
  qed
qed

lemma others_aborted_live: "others_aborted st \<Longrightarrow> live_requests st \<le> 1"
proof (cases "pendingRequestRef st")
  case None
  assume "others_aborted st"
  with None have "filter (\<lambda>aborted. \<not> aborted) (controllers st) = []"
    by (simp add: others_aborted_def list_all_iff filter_empty_conv)
  then show ?thesis by (simp add: live_requests_def)
next
  case (Some c)
  assume "others_aborted st"
  with Some have "list_all (\<lambda>aborted. aborted) ((controllers st)[c := True])"
    by (simp add: others_aborted_def)
  then have "length (filter (\<lambda>aborted. \<not> aborted) (controllers st)) \<le> 1"
    by (rule filter_live_update)
  then show ?thesis by (simp add: live_requests_def)
qed

lemma cancelPending_aborts:
  "others_aborted st \<Longrightarrow>
   pendingRequestRef (cancelPending st) = None \<and>
   list_all (\<lambda>aborted. aborted) (controllers (cancelPending st)) \<and>
   length (controllers (cancelPending st)) = length (controllers st)"
  by (cases "pendingRequestRef st") (simp_all add: others_aborted_def cancelPending_def abort_def)

lemma cancelPending_idle:
  "pendingRequestRef st = None \<Longrightarrow> cancelPending st = st"
  by (simp add: cancelPending_def)

lemma fetchKnowledgeBaseInfo_component_refs:
  "controllers (area (snd (fetchKnowledgeBaseInfo i c infoReady infoNotReady w))) =
     controllers (area w) \<and>
   pendingRequestRef (area (snd (fetchKnowledgeBaseInfo i c infoReady infoNotReady w))) =
     pendingRequestRef (area w)"
  by (simp add: fetchKnowledgeBaseInfo_def try_catch_def cond_def skip_def invoke_def
        infoReady_def)

text \<open>One delivered change, from a state where nothing is pending and all is aborted.\<close>

lemma scopeEffect_from_idle:
  assumes "pendingRequestRef (area w) = None"
    and "list_all (\<lambda>aborted. aborted) (controllers (area w))"
  shows "others_aborted (area (snd (scopeEffect i c w)))"
    and "\<not> fst (scopeEffect i c w) \<longrightarrow> pendingRequestRef (area (snd (scopeEffect i c w))) = None"
    and "take (length (controllers (area w))) (controllers (area (snd (scopeEffect i c w))))
           = controllers (area w)"
    and "length (controllers (area (snd (scopeEffect i c w)))) \<le> Suc (length (controllers (area w)))"
  using assms
  by (simp_all add: scopeEffect_def Let_def cancelPending_idle resetAllStates_def
        new_AbortController_def fetchKnowledgeBaseInfo_component_refs others_aborted_def)


lemma scopeCleanup_aborts:
  "others_aborted (area w) \<Longrightarrow>
   pendingRequestRef (area (scopeCleanup w)) = None \<and>
   list_all (\<lambda>aborted. aborted) (controllers (area (scopeCleanup w))) \<and>
   length (controllers (area (scopeCleanup w))) = length (controllers (area w))"
  by (simp add: scopeCleanup_def cancelPending_aborts)

text \<open>The state in which the effect runs for a delivered change.\<close>

lemma before_effect_idle:
  assumes "others_aborted (area w)" and "\<not> h \<longrightarrow> pendingRequestRef (area w) = None"
  shows "pendingRequestRef (area (if h then scopeCleanup w else w)) = None"
    and "list_all (\<lambda>aborted. aborted) (controllers (area (if h then scopeCleanup w else w)))"
    and "length (controllers (area (if h then scopeCleanup w else w))) = length (controllers (area w))"
proof -
  show "pendingRequestRef (area (if h then scopeCleanup w else w)) = None"
    using assms by (simp add: scopeCleanup_aborts)
  show "list_all (\<lambda>aborted. aborted) (controllers (area (if h then scopeCleanup w else w)))"
    using assms by (cases h) (simp_all add: scopeCleanup_aborts others_aborted_def)
  show "length (controllers (area (if h then scopeCleanup w else w))) = length (controllers (area w))"
    using assms by (simp add: scopeCleanup_aborts)
qed

lemma deliver_append: "deliver (xs @ ys) m = deliver ys (deliver xs m)"
  by (induction xs m rule: deliver.induct) simp_all

lemma deliver_invariant:
  assumes "others_aborted (area w)" and "\<not> h \<longrightarrow> pendingRequestRef (area w) = None"
  shows "others_aborted (area (snd (deliver changes (h, w)))) \<and>
         (\<not> fst (deliver changes (h, w)) \<longrightarrow>
            pendingRequestRef (area (snd (deliver changes (h, w)))) = None)"
  using assms
proof (induction changes arbitrary: h w)
  case Nil
  then show ?case by simp
next
  case (Cons change changes)
  obtain i c where change: "change = (i, c)" by (cases change)
  let ?w0 = "if h then scopeCleanup w else w"
  obtain h' w' where step: "scopeEffect i c ?w0 = (h', w')" by (cases "scopeEffect i c ?w0")
  have idle: "pendingRequestRef (area ?w0) = None"
    "list_all (\<lambda>aborted. aborted) (controllers (area ?w0))"
    using before_effect_idle [OF Cons.prems] by blast+
  have "others_aborted (area w')" and "\<not> h' \<longrightarrow> pendingRequestRef (area w') = None"
    using scopeEffect_from_idle(1,2) [OF idle, of i c] step by simp_all
  then show ?case
    using Cons.IH [of w' h'] change step by simp
qed

lemma initial_invariant:
  "others_aborted (area initial_world)" "pendingRequestRef (area initial_world) = None"
  by (simp_all add: others_aborted_def initial_world_def initial_area_def)

text \<open>
  C1. At most one scope-resolution request is outstanding at any time. For every
  sequence of scope changes delivered to the component from its initial state, at most
  one controller is not aborted in the state reached; and one more change leaves every
  controller that existed before it aborted (the previous pending request is aborted and
  discarded first) and creates at most one new controller.
\<close>

theorem at_most_one_request:
  "live_requests (area (snd (deliver changes (False, initial_world)))) \<le> 1 \<and>
   list_all (\<lambda>aborted. aborted)
     (take (length (controllers (area (snd (deliver changes (False, initial_world))))))
        (controllers (area (snd (deliver (changes @ [change]) (False, initial_world)))))) \<and>
   length (controllers (area (snd (deliver (changes @ [change]) (False, initial_world)))))
     \<le> Suc (length (controllers (area (snd (deliver changes (False, initial_world))))))"
proof -
  obtain h w where m: "deliver changes (False, initial_world) = (h, w)"
    by (cases "deliver changes (False, initial_world)")
  have inv: "others_aborted (area w)" "\<not> h \<longrightarrow> pendingRequestRef (area w) = None"
    using deliver_invariant [of initial_world False changes] initial_invariant m by simp_all
  obtain i c where change: "change = (i, c)" by (cases change)
  let ?w0 = "if h then scopeCleanup w else w"
  have idle: "pendingRequestRef (area ?w0) = None"
    "list_all (\<lambda>aborted. aborted) (controllers (area ?w0))"
    and len: "length (controllers (area ?w0)) = length (controllers (area w))"
    using before_effect_idle [OF inv] by blast+
  have next_step: "deliver (changes @ [change]) (False, initial_world) = scopeEffect i c ?w0"
    by (simp add: deliver_append m change)
  have "take (length (controllers (area w))) (controllers (area (snd (scopeEffect i c ?w0))))
          = controllers (area ?w0)"
    using scopeEffect_from_idle(3) [OF idle, of i c] len by simp
  then have earlier: "list_all (\<lambda>aborted. aborted)
      (take (length (controllers (area w))) (controllers (area (snd (scopeEffect i c ?w0)))))"
    using idle(2) by simp
  have grows: "length (controllers (area (snd (scopeEffect i c ?w0))))
      \<le> Suc (length (controllers (area w)))"
    using scopeEffect_from_idle(4) [OF idle, of i c] len by simp
  have "live_requests (area w) \<le> 1"
    using inv(1) by (rule others_aborted_live)
  then show ?thesis
    using earlier grows by (simp add: m next_step)
qed

theorem at_most_one_request_witness:
  "deliver [(''a'', False), (''b'', False)] (False, initial_world) =
     (True,
      \<lparr>trace = [InfoOnSuccess, InfoOnSuccess],
       area = initial_area\<lparr>isKnowledgeBaseReady := True, currentKnowledgeBaseRef := ''b'',
                pendingRequestRef := Some 1, controllers := [True, False]\<rparr>\<rparr>) \<and>
   live_requests (area (snd (deliver [(''a'', False), (''b'', False)] (False, initial_world)))) = 1 \<and>
   controllers (area (snd (deliver ([(''a'', False), (''b'', False)] @ [(''c'', False)])
      (False, initial_world)))) = [True, True, False]"
proof -
  have run2: "deliver [(''a'', False), (''b'', False)] (False, initial_world) =
     (True,
      \<lparr>trace = [InfoOnSuccess, InfoOnSuccess],
       area = initial_area\<lparr>isKnowledgeBaseReady := True, currentKnowledgeBaseRef := ''b'',
                pendingRequestRef := Some 1, controllers := [True, False]\<rparr>\<rparr>)"
    by (simp add: scopeEffect_def scopeCleanup_def cancelPending_def abort_def
          resetAllStates_def new_AbortController_def fetchKnowledgeBaseInfo_def try_catch_def
          cond_def invoke_def infoReady_def signal_aborted_def initial_world_def
          initial_area_def Let_def)
  have run3: "controllers (area (snd (deliver ([(''a'', False), (''b'', False)] @ [(''c'', False)])
      (False, initial_world)))) = [True, True, False]"
    unfolding deliver_append run2
    by (simp add: scopeEffect_def scopeCleanup_def cancelPending_def abort_def
          resetAllStates_def new_AbortController_def fetchKnowledgeBaseInfo_def try_catch_def
          cond_def invoke_def infoReady_def signal_aborted_def initial_world_def
          initial_area_def Let_def)
  show ?thesis
    using at_most_one_request [of "[(''a'', False), (''b'', False)]" "(''c'', False)"] run2 run3
    by (simp add: live_requests_def initial_area_def)
qed

text \<open>
  C5. Whenever the scope identifier changes (it differs from the last seen scope) to an
  empty value, or changes while \<^verbatim>\<open>isCreatingMode\<close> is true, the effect leaves the
  readiness flag true and the loading flag false, and it issues no network call: it
  adds nothing to the trace, creates no controller, leaves no request pending and
  returns no cleanup.
\<close>

theorem scopeEffect_empty_or_creating:
  assumes "indexName \<noteq> currentKnowledgeBaseRef (area w)"
    and "indexName = [] \<or> isCreatingMode"
  shows "isKnowledgeBaseReady (area (snd (scopeEffect indexName isCreatingMode w))) \<and>
         \<not> isLoading (area (snd (scopeEffect indexName isCreatingMode w))) \<and>
         trace (snd (scopeEffect indexName isCreatingMode w)) = trace w \<and>
         length (controllers (area (snd (scopeEffect indexName isCreatingMode w))))
           = length (controllers (area w)) \<and>
         pendingRequestRef (area (snd (scopeEffect indexName isCreatingMode w))) = None \<and>
         \<not> fst (scopeEffect indexName isCreatingMode w)"
  using assms
  by (cases "pendingRequestRef (area w)")
     (auto simp: scopeEffect_def Let_def cancelPending_def abort_def resetAllStates_def)

theorem scopeEffect_empty_or_creating_witness:
  "[] \<noteq> currentKnowledgeBaseRef (area (initial_world\<lparr>area := initial_area\<lparr>
        currentKnowledgeBaseRef := ''a'', pendingRequestRef := Some 0, controllers := [False]\<rparr>\<rparr>)) \<and>
   scopeEffect [] False (initial_world\<lparr>area := initial_area\<lparr>
        currentKnowledgeBaseRef := ''a'', pendingRequestRef := Some 0, controllers := [False]\<rparr>\<rparr>)
     = (False, initial_world\<lparr>area := initial_area\<lparr>isKnowledgeBaseReady := True,
          controllers := [True]\<rparr>\<rparr>) \<and>
   ''b'' \<noteq> currentKnowledgeBaseRef (area (initial_world\<lparr>area := initial_area\<lparr>
        currentKnowledgeBaseRef := ''a'', pendingRequestRef := Some 0, controllers := [False]\<rparr>\<rparr>)) \<and>
   isKnowledgeBaseReady (area (snd (scopeEffect ''b'' True (initial_world\<lparr>area := initial_area\<lparr>
        currentKnowledgeBaseRef := ''a'', pendingRequestRef := Some 0, controllers := [False]\<rparr>\<rparr>)))) \<and>
   \<not> isLoading (area (snd (scopeEffect ''b'' True (initial_world\<lparr>area := initial_area\<lparr>
        currentKnowledgeBaseRef := ''a'', pendingRequestRef := Some 0, controllers := [False]\<rparr>\<rparr>)))) \<and>
   trace (snd (scopeEffect ''b'' True (initial_world\<lparr>area := initial_area\<lparr>
        currentKnowledgeBaseRef := ''a'', pendingRequestRef := Some 0, controllers := [False]\<rparr>\<rparr>))) = []"
proof -
  have empty: "scopeEffect [] False (initial_world\<lparr>area := initial_area\<lparr>
        currentKnowledgeBaseRef := ''a'', pendingRequestRef := Some 0, controllers := [False]\<rparr>\<rparr>)
     = (False, initial_world\<lparr>area := initial_area\<lparr>isKnowledgeBaseReady := True,
          controllers := [True]\<rparr>\<rparr>)"
    by (simp add: scopeEffect_def cancelPending_def abort_def resetAllStates_def
          initial_world_def initial_area_def Let_def)
  show ?thesis
    using empty
      scopeEffect_empty_or_creating [of "''b''" "initial_world\<lparr>area := initial_area\<lparr>
        currentKnowledgeBaseRef := ''a'', pendingRequestRef := Some 0, controllers := [False]\<rparr>\<rparr>" True]
      scopeEffect_empty_or_creating [of "[]" "initial_world\<lparr>area := initial_area\<lparr>
        currentKnowledgeBaseRef := ''a'', pendingRequestRef := Some 0, controllers := [False]\<rparr>\<rparr>" False]
    by (simp add: initial_world_def initial_area_def)
qed

text \<open>The component after its first render on a scope that is not empty.\<close>

lemma mounted_on_scope:
  "scope \<noteq> [] \<Longrightarrow>
   mounted_on scope =
     \<lparr>trace = [InfoOnSuccess],
      area = initial_area\<lparr>isKnowledgeBaseReady := True, currentKnowledgeBaseRef := scope,
               pendingRequestRef := Some 0, controllers := [False]\<rparr>\<rparr>"
  by (simp add: mounted_on_def scopeEffect_def cancelPending_def resetAllStates_def
        new_AbortController_def fetchKnowledgeBaseInfo_def try_catch_def cond_def invoke_def
        infoReady_def signal_aborted_def initial_world_def initial_area_def Let_def)

subsection \<open>Changes of the file list\<close>

text \<open>
  C6, as the code has it. One call of \<^verbatim>\<open>handleChange\<close> fires the parent's
  upload-complete callback exactly once when the handler's scope guard passes
  (\<^verbatim>\<open>isCreatingMode\<close>, or \<open>indexName\<close> is the last seen scope), the parent supplied
  the callback, the previous list held an entry with status uploading and the new list
  is non-empty with no entry in status uploading; in every other case it does not fire
  it. So, the guard passing and the callback supplied, it fires once on the transition
  from one uploading entry to one done entry, and it never fires on the transition from
  the empty list to one uploading entry.
\<close>

theorem handleChange_upload_complete:
  "count_list
     (effects_since w
        (snd (handleChange isCreatingMode indexName onUpload onFileSelect newFileList w)))
     OnUpload =
   (if (isCreatingMode \<or> indexName = currentKnowledgeBaseRef (area w)) \<and>
       onUpload \<noteq> None \<and>
       list_ex (\<lambda>f. status f = Some StatusUploading) (prevFileListRef (area w)) \<and>
       newFileList \<noteq> [] \<and>
       \<not> list_ex (\<lambda>f. status f = Some StatusUploading) newFileList
    then 1 else 0)"
  by (auto simp: handleChange_def cond_def seq_def modify_def invoke_def skip_def Let_def
        effects_since_def split: prod.splits option.splits)

theorem handleChange_upload_complete_witness:
  "count_list
     (effects_since (mounted_on ''kb'')
        (snd (handleChange False ''kb'' (Some returns) quiet_select
           [\<lparr>uid = ''1'', status = Some StatusUploading, originFileObj = None\<rparr>]
           (mounted_on ''kb''))))
     OnUpload = 0 \<and>
   prevFileListRef
     (syncPrevFileList (area (snd (handleChange False ''kb'' (Some returns) quiet_select
        [\<lparr>uid = ''1'', status = Some StatusUploading, originFileObj = None\<rparr>]
        (mounted_on ''kb'')))))
     = [\<lparr>uid = ''1'', status = Some StatusUploading, originFileObj = None\<rparr>] \<and>
   count_list
     (effects_since
        ((mounted_on ''kb'')\<lparr>area := syncPrevFileList (area (snd (handleChange False ''kb''
           (Some returns) quiet_select
           [\<lparr>uid = ''1'', status = Some StatusUploading, originFileObj = None\<rparr>]
           (mounted_on ''kb''))))\<rparr>)
        (snd (handleChange False ''kb'' (Some returns) quiet_select
           [\<lparr>uid = ''1'', status = Some StatusDone, originFileObj = None\<rparr>]
           ((mounted_on ''kb'')\<lparr>area := syncPrevFileList (area (snd (handleChange False ''kb''
              (Some returns) quiet_select
              [\<lparr>uid = ''1'', status = Some StatusUploading, originFileObj = None\<rparr>]
              (mounted_on ''kb''))))\<rparr>))))
     OnUpload = 1"
proof -
  have first: "handleChange False ''kb'' (Some returns) quiet_select
        [\<lparr>uid = ''1'', status = Some StatusUploading, originFileObj = None\<rparr>]
        (mounted_on ''kb'')
      = (None, (mounted_on ''kb'')\<lparr>area := (area (mounted_on ''kb''))\<lparr>fileList :=
           [\<lparr>uid = ''1'', status = Some StatusUploading, originFileObj = None\<rparr>]\<rparr>\<rparr>)"
    by (simp add: mounted_on_scope handleChange_def cond_def seq_def modify_def skip_def
          List.map_filter_simps Let_def initial_area_def)
  have refs: "currentKnowledgeBaseRef (area (mounted_on ''kb'')) = ''kb''"
    "prevFileListRef (area (mounted_on ''kb'')) = []"
    by (simp_all add: mounted_on_scope initial_area_def)
  show ?thesis
    using
      handleChange_upload_complete
        [of "mounted_on ''kb''" False "''kb''" "Some returns" quiet_select
            "[\<lparr>uid = ''1'', status = Some StatusUploading, originFileObj = None\<rparr>]"]
      handleChange_upload_complete
        [of "(mounted_on ''kb'')\<lparr>area := syncPrevFileList (area (snd (handleChange False ''kb''
               (Some returns) quiet_select
               [\<lparr>uid = ''1'', status = Some StatusUploading, originFileObj = None\<rparr>]
               (mounted_on ''kb''))))\<rparr>"
            False "''kb''" "Some returns" quiet_select
            "[\<lparr>uid = ''1'', status = Some StatusDone, originFileObj = None\<rparr>]"]
    by (simp add: first syncPrevFileList_def refs)
qed

text \<open>
  C6, as the claim states it, fails: on the transition from one uploading entry to one
  done entry the callback is not fired when the change arrives for a scope that is not
  the last seen one. The handler discards the change.
\<close>

theorem handleChange_stale_scope_not_fired:
  "handleChange False ''b'' (Some returns) quiet_select
     [\<lparr>uid = ''1'', status = Some StatusDone, originFileObj = None\<rparr>]
     ((mounted_on ''a'')\<lparr>area := (area (mounted_on ''a''))\<lparr>prevFileListRef :=
        [\<lparr>uid = ''1'', status = Some StatusUploading, originFileObj = None\<rparr>]\<rparr>\<rparr>)
   = (None,
      (mounted_on ''a'')\<lparr>area := (area (mounted_on ''a''))\<lparr>prevFileListRef :=
        [\<lparr>uid = ''1'', status = Some StatusUploading, originFileObj = None\<rparr>]\<rparr>\<rparr>)"
  by (simp add: handleChange_def cond_def skip_def mounted_on_scope initial_area_def)

subsection \<open>The gate and the file list\<close>

lemma invoke_fileList:
  "\<forall>st. fileList (snd (cb st)) = fileList st \<Longrightarrow>
   fileList (area (snd (invoke ev cb w))) = fileList (area w)"
  by (cases "cb (area w)") (auto simp: invoke_def dest: spec [of _ "area w"])

lemma seq_modify: "seq (modify f) q w = q (w\<lparr>area := f (area w)\<rparr>)"
  by (simp add: seq_def modify_def)

lemma seq_fileList:
  assumes "\<And>u. fileList (area (snd (p u))) = fileList (area u)"
    and "\<And>u. fileList (area (snd (q u))) = fileList (area u)"
  shows "fileList (area (snd (seq p q v))) = fileList (area v)"
proof (cases "p v")
  case (Pair r v1)
  with assms(1) [of v] assms(2) [of v1] show ?thesis
    by (cases r) (simp_all add: seq_def)
qed

lemma handleChange_stores:
  assumes "isCreatingMode \<or> indexName = currentKnowledgeBaseRef (area w)"
    and "\<forall>cb. onUpload = Some cb \<longrightarrow> (\<forall>st. fileList (snd (cb st)) = fileList st)"
    and "\<forall>files st. fileList (snd (onFileSelect files st)) = fileList st"
  shows "fileList (area (snd (handleChange isCreatingMode indexName onUpload onFileSelect
            newFileList w))) = newFileList"
proof -
  let ?w1 = "w\<lparr>area := (area w)\<lparr>fileList := newFileList\<rparr>\<rparr>"
  define fire where "fire =
    (if list_ex (\<lambda>f. status f = Some StatusUploading) (prevFileListRef (area w)) \<and>
        (length newFileList > 0 \<and>
         \<not> list_ex (\<lambda>f. status f = Some StatusUploading) newFileList)
     then (case onUpload of Some cb \<Rightarrow> invoke OnUpload cb | None \<Rightarrow> skip)
     else skip)"
  define forward where "forward =
    (if length (List.map_filter originFileObj newFileList) > 0
     then invoke (OnFileSelect (List.map_filter originFileObj newFileList))
            (onFileSelect (List.map_filter originFileObj newFileList))
     else skip)"
  have run: "handleChange isCreatingMode indexName onUpload onFileSelect newFileList w
      = seq fire forward ?w1"
    using assms(1)
    by (simp add: handleChange_def cond_def seq_modify Let_def fire_def forward_def)
  have fire_keeps: "fileList (area (snd (fire u))) = fileList (area u)" for u
    using assms(2) by (cases onUpload) (simp_all add: fire_def skip_def invoke_fileList)
  have forward_keeps: "fileList (area (snd (forward u))) = fileList (area u)" for u
    using assms(3) by (simp add: forward_def skip_def invoke_fileList)
  have "fileList (area (snd (seq fire forward ?w1))) = fileList (area ?w1)"
    using fire_keeps forward_keeps by (rule seq_fileList)
  then show ?thesis
    by (simp add: run)
qed

lemma suffix_last:
  assumes "suffix a l" and "suffix b l" and "a \<noteq> []" and "b \<noteq> []"
  shows "last a = last b"
proof -
  from assms(1,3) have "last l = last a" by (auto simp: suffix_def)
  moreover from assms(2,4) have "last l = last b" by (auto simp: suffix_def)
  ultimately show ?thesis by simp
qed

lemma other_suffix_not_fallback:
  assumes "suffix ''.pdf'' l \<or> suffix ''.docx'' l \<or> suffix ''.pptx'' l \<or>
           suffix ''.xlsx'' l \<or> suffix ''.txt'' l"
  shows "\<not> suffix ''.md'' l \<and> \<not> suffix ''.markdown'' l \<and> \<not> suffix ''.csv'' l"
  using assms suffix_last [of "''.pdf''" l "''.md''"] suffix_last [of "''.pdf''" l "''.markdown''"]
    suffix_last [of "''.pdf''" l "''.csv''"]
    suffix_last [of "''.docx''" l "''.md''"] suffix_last [of "''.docx''" l "''.markdown''"]
    suffix_last [of "''.docx''" l "''.csv''"]
    suffix_last [of "''.pptx''" l "''.md''"] suffix_last [of "''.pptx''" l "''.markdown''"]
    suffix_last [of "''.pptx''" l "''.csv''"]
    suffix_last [of "''.xlsx''" l "''.md''"] suffix_last [of "''.xlsx''" l "''.markdown''"]
    suffix_last [of "''.xlsx''" l "''.csv''"]
    suffix_last [of "''.txt''" l "''.md''"] suffix_last [of "''.txt''" l "''.markdown''"]
    suffix_last [of "''.txt''" l "''.csv''"]
  by auto

text \<open>
  C7, as the code has it. The gate accepts a file exactly when its declared media type is
  one of the eight listed ones (PDF, Word .docx, PowerPoint .pptx, Excel .xlsx,
  Markdown, plain text, and the two CSV types) or, failing that, when its name,
  lower-cased, ends in \<^verbatim>\<open>.md\<close>, \<^verbatim>\<open>.markdown\<close> or \<^verbatim>\<open>.csv\<close>: the media
  type decides first, and the fallback on the suffix exists for Markdown and CSV only.
  The suffix is read without regard to case: a name ending in \<^verbatim>\<open>.MD\<close>,
  \<^verbatim>\<open>.MARKDOWN\<close> or \<^verbatim>\<open>.CSV\<close> is accepted whatever the media type. A file
  whose media type is not listed and whose lower-cased name ends in \<^verbatim>\<open>.pdf\<close>,
  \<^verbatim>\<open>.docx\<close>, \<^verbatim>\<open>.pptx\<close>, \<^verbatim>\<open>.xlsx\<close> or \<^verbatim>\<open>.txt\<close> is rejected.
  An accepted file adds no notification; a rejection returns false and adds exactly
  one, and it leaves the file list as it is. The component does not keep a rejected
  file out of the list: when the scope guard of \<^verbatim>\<open>handleChange\<close> passes and the
  callbacks of the parent leave the list alone, the handler stores whatever list it is
  given.
\<close>

theorem validateFileType_gate:
  "validateFileType f w =
     (if file_type f \<in>
           {''application/pdf'',
            ''application/vnd.openxmlformats-officedocument.wordprocessingml.document'',
            ''application/vnd.openxmlformats-officedocument.presentationml.presentation'',
            ''application/vnd.openxmlformats-officedocument.spreadsheetml.sheet'',
            ''text/markdown'', ''text/plain'', ''text/csv'', ''application/csv''} \<or>
         suffix ''.md'' (toLowerCase (file_name f)) \<or>
         suffix ''.markdown'' (toLowerCase (file_name f)) \<or>
         suffix ''.csv'' (toLowerCase (file_name f))
      then (True, w)
      else (False, w\<lparr>trace := trace w @ [MessageError UnsupportedFormat]\<rparr>)) \<and>
   (file_name f = stem @ ''.MD'' \<or> file_name f = stem @ ''.MARKDOWN'' \<or>
    file_name f = stem @ ''.CSV'' \<longrightarrow>
      validateFileType f w = (True, w)) \<and>
   (file_type f \<notin>
           {''application/pdf'',
            ''application/vnd.openxmlformats-officedocument.wordprocessingml.document'',
            ''application/vnd.openxmlformats-officedocument.presentationml.presentation'',
            ''application/vnd.openxmlformats-officedocument.spreadsheetml.sheet'',
            ''text/markdown'', ''text/plain'', ''text/csv'', ''application/csv''} \<and>
    (suffix ''.pdf'' (toLowerCase (file_name f)) \<or>
     suffix ''.docx'' (toLowerCase (file_name f)) \<or>
     suffix ''.pptx'' (toLowerCase (file_name f)) \<or>
     suffix ''.xlsx'' (toLowerCase (file_name f)) \<or>
     suffix ''.txt'' (toLowerCase (file_name f))) \<longrightarrow>
      validateFileType f w =
        (False, w\<lparr>trace := trace w @ [MessageError UnsupportedFormat]\<rparr>)) \<and>
   ((isCreatingMode \<or> indexName = currentKnowledgeBaseRef (area v)) \<and>
    (\<forall>cb. onUpload = Some cb \<longrightarrow> (\<forall>st. fileList (snd (cb st)) = fileList st)) \<and>
    (\<forall>files st. fileList (snd (onFileSelect files st)) = fileList st) \<longrightarrow>
      fileList (area (snd (handleChange isCreatingMode indexName onUpload onFileSelect
        newFileList v))) = newFileList)"
proof (intro conjI impI)
  have types: "set validTypes =
           {''application/pdf'',
            ''application/vnd.openxmlformats-officedocument.wordprocessingml.document'',
            ''application/vnd.openxmlformats-officedocument.presentationml.presentation'',
            ''application/vnd.openxmlformats-officedocument.spreadsheetml.sheet'',
            ''text/markdown'', ''text/plain'', ''text/csv'', ''application/csv''}"
    unfolding validTypes_def by (simp only: list.set)
  have valid: "isValidType f \<longleftrightarrow>
          file_type f \<in> set validTypes \<or>
          suffix ''.md'' (toLowerCase (file_name f)) \<or>
          suffix ''.markdown'' (toLowerCase (file_name f)) \<or>
          suffix ''.csv'' (toLowerCase (file_name f))"
    by (simp add: isValidType_def endsWith_suffix Let_def)
  show gate: "validateFileType f w =
     (if file_type f \<in>
           {''application/pdf'',
            ''application/vnd.openxmlformats-officedocument.wordprocessingml.document'',
            ''application/vnd.openxmlformats-officedocument.presentationml.presentation'',
            ''application/vnd.openxmlformats-officedocument.spreadsheetml.sheet'',
            ''text/markdown'', ''text/plain'', ''text/csv'', ''application/csv''} \<or>
         suffix ''.md'' (toLowerCase (file_name f)) \<or>
         suffix ''.markdown'' (toLowerCase (file_name f)) \<or>
         suffix ''.csv'' (toLowerCase (file_name f))
      then (True, w)
      else (False, w\<lparr>trace := trace w @ [MessageError UnsupportedFormat]\<rparr>))"
  proof (cases "isValidType f")
    case True
    then show ?thesis
      using valid unfolding validateFileType_def types
      by (simp only: simp_thms if_True if_False)
  next
    case False
    then show ?thesis
      using valid unfolding validateFileType_def types
      by (simp only: simp_thms if_True if_False)
  qed
  assume other: "file_type f \<notin>
           {''application/pdf'',
            ''application/vnd.openxmlformats-officedocument.wordprocessingml.document'',
            ''application/vnd.openxmlformats-officedocument.presentationml.presentation'',
            ''application/vnd.openxmlformats-officedocument.spreadsheetml.sheet'',
            ''text/markdown'', ''text/plain'', ''text/csv'', ''application/csv''} \<and>
    (suffix ''.pdf'' (toLowerCase (file_name f)) \<or>
     suffix ''.docx'' (toLowerCase (file_name f)) \<or>
     suffix ''.pptx'' (toLowerCase (file_name f)) \<or>
     suffix ''.xlsx'' (toLowerCase (file_name f)) \<or>
     suffix ''.txt'' (toLowerCase (file_name f)))"
  then have "\<not> suffix ''.md'' (toLowerCase (file_name f)) \<and>
      \<not> suffix ''.markdown'' (toLowerCase (file_name f)) \<and>
      \<not> suffix ''.csv'' (toLowerCase (file_name f))"
    by (intro other_suffix_not_fallback) blast
  with other have "\<not> isValidType f"
    unfolding valid types by blast
  then show "validateFileType f w =
        (False, w\<lparr>trace := trace w @ [MessageError UnsupportedFormat]\<rparr>)"
    by (simp add: validateFileType_def)
next
  assume "file_name f = stem @ ''.MD'' \<or> file_name f = stem @ ''.MARKDOWN'' \<or>
    file_name f = stem @ ''.CSV''"
  then have "toLowerCase (file_name f) = toLowerCase stem @ ''.md'' \<or>
      toLowerCase (file_name f) = toLowerCase stem @ ''.markdown'' \<or>
      toLowerCase (file_name f) = toLowerCase stem @ ''.csv''"
    by (auto simp: toLowerCase_append toLowerCase_upper_md toLowerCase_upper_markdown
          toLowerCase_upper_csv)
  then have "endsWith (toLowerCase (file_name f)) ''.md'' \<or>
      endsWith (toLowerCase (file_name f)) ''.markdown'' \<or>
      endsWith (toLowerCase (file_name f)) ''.csv''"
    by (auto simp: endsWith_append)
  then show "validateFileType f w = (True, w)"
    by (auto simp: validateFileType_def isValidType_def Let_def)
next
  assume "(isCreatingMode \<or> indexName = currentKnowledgeBaseRef (area v)) \<and>
    (\<forall>cb. onUpload = Some cb \<longrightarrow> (\<forall>st. fileList (snd (cb st)) = fileList st)) \<and>
    (\<forall>files st. fileList (snd (onFileSelect files st)) = fileList st)"
  then show "fileList (area (snd (handleChange isCreatingMode indexName onUpload onFileSelect
        newFileList v))) = newFileList"
    by (intro handleChange_stores) blast+
qed

theorem validateFileType_gate_witness:
  "validateFileType \<lparr>file_name = ''README.MD'', file_type = ''''\<rparr> initial_world
     = (True, initial_world) \<and>
   validateFileType \<lparr>file_name = ''Table.CSV'', file_type = ''application/vnd.ms-excel''\<rparr>
     initial_world = (True, initial_world) \<and>
   validateFileType \<lparr>file_name = ''notes.txt'', file_type = ''''\<rparr> initial_world
     = (False, initial_world\<lparr>trace := [MessageError UnsupportedFormat]\<rparr>) \<and>
   ''kb'' = currentKnowledgeBaseRef (area (mounted_on ''kb'')) \<and>
   fileList (area (snd (handleChange False ''kb'' None quiet_select
      [\<lparr>uid = ''1'', status = None,
        originFileObj = Some \<lparr>file_name = ''notes.txt'', file_type = ''''\<rparr>\<rparr>]
      (mounted_on ''kb''))))
     = [\<lparr>uid = ''1'', status = None,
         originFileObj = Some \<lparr>file_name = ''notes.txt'', file_type = ''''\<rparr>\<rparr>]"
  using
    validateFileType_gate
      [where f = "\<lparr>file_name = ''README.MD'', file_type = ''''\<rparr>" and w = initial_world
         and stem = "''README''" and isCreatingMode = False and indexName = "''kb''"
         and v = "mounted_on ''kb''" and onUpload = None and onFileSelect = quiet_select
         and newFileList = "[\<lparr>uid = ''1'', status = None,
            originFileObj = Some \<lparr>file_name = ''notes.txt'', file_type = ''''\<rparr>\<rparr>]"]
    validateFileType_gate
      [where f = "\<lparr>file_name = ''Table.CSV'', file_type = ''application/vnd.ms-excel''\<rparr>"
         and w = initial_world and stem = "''Table''" and isCreatingMode = False
         and indexName = "''kb''" and v = "mounted_on ''kb''" and onUpload = None
         and onFileSelect = quiet_select and newFileList = "[]"]
    validateFileType_gate
      [where f = "\<lparr>file_name = ''notes.txt'', file_type = ''''\<rparr>" and w = initial_world
         and stem = "[]" and isCreatingMode = False and indexName = "''kb''"
         and v = "mounted_on ''kb''" and onUpload = None and onFileSelect = quiet_select
         and newFileList = "[]"]
  by (simp add: toLowerCase_def lower_char_def endsWith_suffix [symmetric] endsWith_def
        initial_world_def mounted_on_scope quiet_select_def returns_def initial_area_def)

text \<open>
  C7, as the claim states it, fails twice. A PDF whose media type is empty is not
  accepted by its suffix: the gate rejects it and notifies. And the rejection does not
  keep the file out of the list: when the upload widget reports the rejected file in
  the list it hands to \<^verbatim>\<open>handleChange\<close>, the handler stores it.
\<close>

theorem validateFileType_pdf_by_suffix_rejected:
  "validateFileType \<lparr>file_name = ''report.pdf'', file_type = ''''\<rparr> initial_world
     = (False, initial_world\<lparr>trace := [MessageError UnsupportedFormat]\<rparr>) \<and>
   fileList (area (snd (handleChange False ''kb'' None quiet_select
      [\<lparr>uid = ''1'', status = None,
        originFileObj = Some \<lparr>file_name = ''report.pdf'', file_type = ''''\<rparr>\<rparr>]
      (mounted_on ''kb''))))
     = [\<lparr>uid = ''1'', status = None,
         originFileObj = Some \<lparr>file_name = ''report.pdf'', file_type = ''''\<rparr>\<rparr>]"
  by (simp add: validateFileType_def isValidType_def validTypes_def endsWith_def
        toLowerCase_def lower_char_def initial_world_def mounted_on_scope handleChange_def
        cond_def seq_def modify_def skip_def invoke_def quiet_select_def returns_def
        List.map_filter_simps Let_def initial_area_def)

subsection \<open>The upload adapter\<close>

lemmas proc_defs = cond_def seq_def try_catch_def emit_def modify_def await_def
  skip_def throw_def

lemma invoke_cases:
  "invoke ev cb w =
     (fst (cb (area w)), w\<lparr>trace := trace w @ [ev], area := snd (cb (area w))\<rparr>)"
  by (cases "cb (area w)") (simp add: invoke_def)


text \<open>
  C3, as the code has it. Take a call of the upload adapter with \<^verbatim>\<open>isCreatingMode\<close>
  false. The scope is checked twice: before the network call, and when \<^verbatim>\<open>fetch\<close>
  has returned. If the target scope differs from the last seen scope at one of these
  two checks, the success callback is never invoked, whatever the transport and the
  callbacks do. When the mismatch holds at the first check, the adapter makes no request
  and its first effect is the error callback with the scope-switched error; when it
  holds only at the second check and \<^verbatim>\<open>fetch\<close> gave a response, with any status,
  the error callback with the scope-switched error follows the request at once. In both
  cases the scope-switched notification follows when that call of the error callback
  returns normally. When \<^verbatim>\<open>fetch\<close> itself throws and the scope has moved, the
  guarded handler does nothing: no callback is invoked and nothing is notified. No check
  follows \<^verbatim>\<open>await response.json()\<close>: when both checks pass, the response is ok
  and its body parses, the success callback is invoked even if the scope moves during
  that await.
\<close>

theorem customUploadRequest_scope_switched:
  assumes "\<not> isCreatingMode"
  shows
    "(indexName \<noteq> currentKnowledgeBaseRef (area w) \<or>
      indexName \<noteq> currentKnowledgeBaseRef (fetch_env net (area w)) \<longrightarrow>
        filter success_call
          (upload_effects options url isCreatingMode newName indexName net w) = []) \<and>
     (indexName \<noteq> currentKnowledgeBaseRef (area w) \<longrightarrow>
        upload_effects options url isCreatingMode newName indexName net w =
          UploadOnError (new_Error KbSwitchedText) #
          (if fst (opt_onError options (new_Error KbSwitchedText) (area w)) = None
           then [MessageError (UploadFailedKbSwitched (file_name (opt_file options)))]
           else [])) \<and>
     (indexName = currentKnowledgeBaseRef (area w) \<and>
      indexName \<noteq> currentKnowledgeBaseRef (fetch_env net (area w)) \<and>
      fetch_result net = Inr ok \<longrightarrow>
        take 2 (upload_effects options url isCreatingMode newName indexName net w) =
          [Fetch url (opt_file options) indexName,
           UploadOnError (new_Error KbSwitchedText)] \<and>
        (fst (opt_onError options (new_Error KbSwitchedText) (fetch_env net (area w))) = None \<longrightarrow>
           upload_effects options url isCreatingMode newName indexName net w =
             [Fetch url (opt_file options) indexName,
              UploadOnError (new_Error KbSwitchedText),
              MessageError (UploadFailedKbSwitched (file_name (opt_file options)))])) \<and>
     (indexName = currentKnowledgeBaseRef (area w) \<and>
      indexName \<noteq> currentKnowledgeBaseRef (fetch_env net (area w)) \<and>
      fetch_result net = Inl err \<longrightarrow>
        customUploadRequest options url isCreatingMode newName indexName net w =
          (None, w\<lparr>trace := trace w @ [Fetch url (opt_file options) indexName],
                   area := fetch_env net (area w)\<rparr>)) \<and>
     (indexName = currentKnowledgeBaseRef (area w) \<and>
      indexName = currentKnowledgeBaseRef (fetch_env net (area w)) \<and>
      fetch_result net = Inr True \<and> json_result net = Inr result \<longrightarrow>
        take 2 (upload_effects options url isCreatingMode newName indexName net w) =
          [Fetch url (opt_file options) indexName,
           UploadOnSuccess result (opt_file options)])"
proof (intro conjI impI)
  assume "indexName \<noteq> currentKnowledgeBaseRef (area w) \<or>
      indexName \<noteq> currentKnowledgeBaseRef (fetch_env net (area w))"
  then show "filter success_call
          (upload_effects options url isCreatingMode newName indexName net w) = []"
    using assms
    by (cases "fetch_result net")
       (auto simp: upload_effects_def customUploadRequest_def effects_since_def proc_defs
          invoke_def Let_def split: prod.splits option.splits sum.splits)
next
  assume "indexName \<noteq> currentKnowledgeBaseRef (area w)"
  then show "upload_effects options url isCreatingMode newName indexName net w =
          UploadOnError (new_Error KbSwitchedText) #
          (if fst (opt_onError options (new_Error KbSwitchedText) (area w)) = None
           then [MessageError (UploadFailedKbSwitched (file_name (opt_file options)))]
           else [])"
    using assms
    by (auto simp: upload_effects_def customUploadRequest_def effects_since_def proc_defs
          invoke_cases Let_def split: option.splits)
next
  assume a: "indexName = currentKnowledgeBaseRef (area w) \<and>
      indexName \<noteq> currentKnowledgeBaseRef (fetch_env net (area w)) \<and>
      fetch_result net = Inr ok"
  then show "take 2 (upload_effects options url isCreatingMode newName indexName net w) =
          [Fetch url (opt_file options) indexName,
           UploadOnError (new_Error KbSwitchedText)]"
    using assms
    by (auto simp: upload_effects_def customUploadRequest_def effects_since_def proc_defs
          invoke_cases Let_def split: option.splits)
  assume "fst (opt_onError options (new_Error KbSwitchedText) (fetch_env net (area w))) = None"
  with a show "upload_effects options url isCreatingMode newName indexName net w =
             [Fetch url (opt_file options) indexName,
              UploadOnError (new_Error KbSwitchedText),
              MessageError (UploadFailedKbSwitched (file_name (opt_file options)))]"
    using assms
    by (auto simp: upload_effects_def customUploadRequest_def effects_since_def proc_defs
          invoke_cases Let_def split: option.splits)
next
  assume "indexName = currentKnowledgeBaseRef (area w) \<and>
      indexName \<noteq> currentKnowledgeBaseRef (fetch_env net (area w)) \<and>
      fetch_result net = Inl err"
  then show "customUploadRequest options url isCreatingMode newName indexName net w =
          (None, w\<lparr>trace := trace w @ [Fetch url (opt_file options) indexName],
                   area := fetch_env net (area w)\<rparr>)"
    using assms
    by (auto simp: customUploadRequest_def proc_defs Let_def)
next
  assume "indexName = currentKnowledgeBaseRef (area w) \<and>
      indexName = currentKnowledgeBaseRef (fetch_env net (area w)) \<and>
      fetch_result net = Inr True \<and> json_result net = Inr result"
  then show "take 2 (upload_effects options url isCreatingMode newName indexName net w) =
          [Fetch url (opt_file options) indexName,
           UploadOnSuccess result (opt_file options)]"
    using assms
    by (auto simp: upload_effects_def customUploadRequest_def effects_since_def proc_defs
          invoke_cases Let_def split: option.splits)
qed

theorem customUploadRequest_scope_switched_witness:
  "upload_effects (quiet_options \<lparr>file_name = ''a.pdf'', file_type = ''application/pdf''\<rparr>)
     ''/api/upload'' False [] ''b''
     \<lparr>fetch_env = scope_becomes ''a'', fetch_result = Inr True,
      json_env = scope_becomes ''a'', json_result = Inr ''{}''\<rparr>
     (mounted_on ''a'')
   = [UploadOnError (new_Error KbSwitchedText), MessageError (UploadFailedKbSwitched ''a.pdf'')] \<and>
   upload_effects
     ((quiet_options \<lparr>file_name = ''a.pdf'', file_type = ''application/pdf''\<rparr>)
        \<lparr>opt_onError := throws\<rparr>)
     ''/api/upload'' False [] ''b''
     \<lparr>fetch_env = scope_becomes ''a'', fetch_result = Inr True,
      json_env = scope_becomes ''a'', json_result = Inr ''{}''\<rparr>
     (mounted_on ''a'')
   = [UploadOnError (new_Error KbSwitchedText)] \<and>
   upload_effects (quiet_options \<lparr>file_name = ''a.pdf'', file_type = ''application/pdf''\<rparr>)
     ''/api/upload'' False [] ''a''
     \<lparr>fetch_env = scope_becomes ''b'', fetch_result = Inr True,
      json_env = scope_becomes ''b'', json_result = Inr ''{}''\<rparr>
     (mounted_on ''a'')
   = [Fetch ''/api/upload'' \<lparr>file_name = ''a.pdf'', file_type = ''application/pdf''\<rparr> ''a'',
      UploadOnError (new_Error KbSwitchedText), MessageError (UploadFailedKbSwitched ''a.pdf'')] \<and>
   filter success_call
     (upload_effects (quiet_options \<lparr>file_name = ''a.pdf'', file_type = ''application/pdf''\<rparr>)
        ''/api/upload'' False [] ''a''
        \<lparr>fetch_env = scope_becomes ''b'', fetch_result = Inr True,
         json_env = scope_becomes ''b'', json_result = Inr ''{}''\<rparr>
        (mounted_on ''a'')) = [] \<and>
   customUploadRequest
     (quiet_options \<lparr>file_name = ''a.pdf'', file_type = ''application/pdf''\<rparr>)
     ''/api/upload'' False [] ''a''
     \<lparr>fetch_env = scope_becomes ''b'',
      fetch_result = Inl (JsError ''TypeError'' (OtherText ''Failed to fetch'')),
      json_env = scope_becomes ''b'', json_result = Inr ''{}''\<rparr>
     (mounted_on ''a'')
   = (None,
      (mounted_on ''a'')\<lparr>trace := trace (mounted_on ''a'') @
          [Fetch ''/api/upload'' \<lparr>file_name = ''a.pdf'', file_type = ''application/pdf''\<rparr> ''a''],
        area := scope_becomes ''b'' (area (mounted_on ''a''))\<rparr>) \<and>
   take 2
     (upload_effects (quiet_options \<lparr>file_name = ''a.pdf'', file_type = ''application/pdf''\<rparr>)
        ''/api/upload'' False [] ''a''
        \<lparr>fetch_env = scope_becomes ''a'', fetch_result = Inr True,
         json_env = scope_becomes ''b'', json_result = Inr ''{}''\<rparr>
        (mounted_on ''a''))
   = [Fetch ''/api/upload'' \<lparr>file_name = ''a.pdf'', file_type = ''application/pdf''\<rparr> ''a'',
      UploadOnSuccess ''{}'' \<lparr>file_name = ''a.pdf'', file_type = ''application/pdf''\<rparr>]"
  using
    customUploadRequest_scope_switched
      [where isCreatingMode = False and indexName = "''b''" and w = "mounted_on ''a''"
         and net = "\<lparr>fetch_env = scope_becomes ''a'', fetch_result = Inr True,
            json_env = scope_becomes ''a'', json_result = Inr ''{}''\<rparr>"
         and options = "quiet_options \<lparr>file_name = ''a.pdf'', file_type = ''application/pdf''\<rparr>"
         and url = "''/api/upload''" and newName = "[]"]
    customUploadRequest_scope_switched
      [where isCreatingMode = False and indexName = "''b''" and w = "mounted_on ''a''"
         and net = "\<lparr>fetch_env = scope_becomes ''a'', fetch_result = Inr True,
            json_env = scope_becomes ''a'', json_result = Inr ''{}''\<rparr>"
         and options = "(quiet_options \<lparr>file_name = ''a.pdf'', file_type = ''application/pdf''\<rparr>)
            \<lparr>opt_onError := throws\<rparr>"
         and url = "''/api/upload''" and newName = "[]"]
    customUploadRequest_scope_switched
      [where isCreatingMode = False and indexName = "''a''" and w = "mounted_on ''a''"
         and net = "\<lparr>fetch_env = scope_becomes ''b'', fetch_result = Inr True,
            json_env = scope_becomes ''b'', json_result = Inr ''{}''\<rparr>"
         and options = "quiet_options \<lparr>file_name = ''a.pdf'', file_type = ''application/pdf''\<rparr>"
         and url = "''/api/upload''" and newName = "[]" and ok = True]
    customUploadRequest_scope_switched
      [where isCreatingMode = False and indexName = "''a''" and w = "mounted_on ''a''"
         and net = "\<lparr>fetch_env = scope_becomes ''b'',
            fetch_result = Inl (JsError ''TypeError'' (OtherText ''Failed to fetch'')),
            json_env = scope_becomes ''b'', json_result = Inr ''{}''\<rparr>"
         and options = "quiet_options \<lparr>file_name = ''a.pdf'', file_type = ''application/pdf''\<rparr>"
         and url = "''/api/upload''" and newName = "[]"
         and err = "JsError ''TypeError'' (OtherText ''Failed to fetch'')"]
    customUploadRequest_scope_switched
      [where isCreatingMode = False and indexName = "''a''" and w = "mounted_on ''a''"
         and net = "\<lparr>fetch_env = scope_becomes ''a'', fetch_result = Inr True,
            json_env = scope_becomes ''b'', json_result = Inr ''{}''\<rparr>"
         and options = "quiet_options \<lparr>file_name = ''a.pdf'', file_type = ''application/pdf''\<rparr>"
         and url = "''/api/upload''" and newName = "[]" and result = "''{}''"]
  by (simp add: mounted_on_scope quiet_options_def returns_def throws_def scope_becomes_def
        initial_area_def)

text \<open>
  C3, as the claim states it, fails twice. The scope moves from a to b while the request
  is pending and the request throws: the adapter ends without any scope-switched error,
  the only effect of the call is the request. And the scope moves from a to b only
  while \<^verbatim>\<open>response.json()\<close> is awaited, after both checks: the success callback
  is invoked.
\<close>

theorem customUploadRequest_throw_after_switch_silent:
  "customUploadRequest
     (quiet_options \<lparr>file_name = ''a.pdf'', file_type = ''application/pdf''\<rparr>)
     ''/api/upload'' False [] ''a''
     \<lparr>fetch_env = scope_becomes ''b'',
      fetch_result = Inl (JsError ''TypeError'' (OtherText ''Failed to fetch'')),
      json_env = scope_becomes ''b'', json_result = Inr ''{}''\<rparr>
     (mounted_on ''a'')
   = (None,
      \<lparr>trace = [InfoOnSuccess,
                Fetch ''/api/upload'' \<lparr>file_name = ''a.pdf'', file_type = ''application/pdf''\<rparr> ''a''],
       area = initial_area\<lparr>isKnowledgeBaseReady := True, currentKnowledgeBaseRef := ''b'',
                pendingRequestRef := Some 0, controllers := [False]\<rparr>\<rparr>) \<and>
   upload_effects
     (quiet_options \<lparr>file_name = ''a.pdf'', file_type = ''application/pdf''\<rparr>)
     ''/api/upload'' False [] ''a''
     \<lparr>fetch_env = scope_becomes ''a'', fetch_result = Inr True,
      json_env = scope_becomes ''b'', json_result = Inr ''{}''\<rparr>
     (mounted_on ''a'')
   = [Fetch ''/api/upload'' \<lparr>file_name = ''a.pdf'', file_type = ''application/pdf''\<rparr> ''a'',
      UploadOnSuccess ''{}'' \<lparr>file_name = ''a.pdf'', file_type = ''application/pdf''\<rparr>]"
  by (simp add: upload_effects_def effects_since_def mounted_on_scope customUploadRequest_def
        proc_defs invoke_def quiet_options_def returns_def scope_becomes_def initial_area_def
        Let_def)

text \<open>
  C4, as the code has it. Call report the effects of the handler (lines 60 to 66) in a
  given state: if the target scope is the last seen scope there, or
  \<^verbatim>\<open>isCreatingMode\<close> is true, the error callback with the upload-failed error,
  followed by the upload-failed notification when that call returns normally; nothing
  otherwise. Take an upload attempt that passes the first scope check.
  When \<^verbatim>\<open>fetch\<close>, \<^verbatim>\<open>response.json()\<close> or the success callback throws, the
  attempt adds the report of the state at the time of the failure, and nothing else: the
  failure is reported if and only if the scope still matches then or
  \<^verbatim>\<open>isCreatingMode\<close> is true, and otherwise both the callback and the notification
  are suppressed. When the response is not ok and the scope matches at the second check
  (or \<^verbatim>\<open>isCreatingMode\<close> is true), the error callback is invoked with the
  upload-failed error. When \<^verbatim>\<open>fetch\<close> gave a response, of any status, and the
  scope does not match at the second check, the error callback is invoked with the
  scope-switched error. In both cases the notification of the same kind follows when
  that call returns normally, and when it throws the handler runs instead and adds its
  report. An attempt that fails the first scope check invokes the error callback with
  the scope-switched error and makes no request; the scope-switched notification
  follows when that call returns normally, and nothing follows when it throws.
\<close>

theorem customUploadRequest_failure_report:
  assumes "effective = (if isCreatingMode then newName else indexName)"
    and "report = (\<lambda>st.
           if effective = currentKnowledgeBaseRef st \<or> isCreatingMode
           then UploadOnError (new_Error UploadFailedText) #
                (if fst (opt_onError options (new_Error UploadFailedText) st) = None
                 then [MessageError (UploadFailed (file_name (opt_file options)))]
                 else [])
           else [])"
  shows
    "((effective = currentKnowledgeBaseRef (area w) \<or> isCreatingMode) \<and>
      fetch_result net = Inl err \<longrightarrow>
        upload_effects options url isCreatingMode newName indexName net w =
          Fetch url (opt_file options) effective # report (fetch_env net (area w))) \<and>
     ((effective = currentKnowledgeBaseRef (area w) \<or> isCreatingMode) \<and>
      fetch_result net = Inr True \<and>
      (effective = currentKnowledgeBaseRef (fetch_env net (area w)) \<or> isCreatingMode) \<and>
      json_result net = Inl err \<longrightarrow>
        upload_effects options url isCreatingMode newName indexName net w =
          Fetch url (opt_file options) effective #
          report (json_env net (fetch_env net (area w)))) \<and>
     ((effective = currentKnowledgeBaseRef (area w) \<or> isCreatingMode) \<and>
      fetch_result net = Inr True \<and>
      (effective = currentKnowledgeBaseRef (fetch_env net (area w)) \<or> isCreatingMode) \<and>
      json_result net = Inr result \<and>
      fst (opt_onSuccess options result (opt_file options)
             (json_env net (fetch_env net (area w)))) \<noteq> None \<longrightarrow>
        upload_effects options url isCreatingMode newName indexName net w =
          Fetch url (opt_file options) effective #
          UploadOnSuccess result (opt_file options) #
          report (snd (opt_onSuccess options result (opt_file options)
                         (json_env net (fetch_env net (area w)))))) \<and>
     ((effective = currentKnowledgeBaseRef (area w) \<or> isCreatingMode) \<and>
      fetch_result net = Inr False \<and>
      (effective = currentKnowledgeBaseRef (fetch_env net (area w)) \<or> isCreatingMode) \<longrightarrow>
        upload_effects options url isCreatingMode newName indexName net w =
          Fetch url (opt_file options) effective #
          UploadOnError (new_Error UploadFailedText) #
          (if fst (opt_onError options (new_Error UploadFailedText)
                     (fetch_env net (area w))) = None
           then [MessageError (UploadFailed (file_name (opt_file options)))]
           else report (snd (opt_onError options (new_Error UploadFailedText)
                               (fetch_env net (area w)))))) \<and>
     ((effective = currentKnowledgeBaseRef (area w) \<or> isCreatingMode) \<and>
      fetch_result net = Inr ok \<and>
      \<not> (effective = currentKnowledgeBaseRef (fetch_env net (area w)) \<or> isCreatingMode) \<longrightarrow>
        upload_effects options url isCreatingMode newName indexName net w =
          Fetch url (opt_file options) effective #
          UploadOnError (new_Error KbSwitchedText) #
          (if fst (opt_onError options (new_Error KbSwitchedText)
                     (fetch_env net (area w))) = None
           then [MessageError (UploadFailedKbSwitched (file_name (opt_file options)))]
           else report (snd (opt_onError options (new_Error KbSwitchedText)
                               (fetch_env net (area w)))))) \<and>
     (\<not> (effective = currentKnowledgeBaseRef (area w) \<or> isCreatingMode) \<longrightarrow>
        upload_effects options url isCreatingMode newName indexName net w =
          UploadOnError (new_Error KbSwitchedText) #
          (if fst (opt_onError options (new_Error KbSwitchedText) (area w)) = None
           then [MessageError (UploadFailedKbSwitched (file_name (opt_file options)))]
           else []))"
proof (intro conjI impI)
  assume "(effective = currentKnowledgeBaseRef (area w) \<or> isCreatingMode) \<and>
      fetch_result net = Inl err"
  then show "upload_effects options url isCreatingMode newName indexName net w =
          Fetch url (opt_file options) effective # report (fetch_env net (area w))"
    using assms
    by (cases isCreatingMode)
       (auto simp: upload_effects_def customUploadRequest_def effects_since_def proc_defs
          invoke_cases Let_def split: option.splits)
next
  assume "(effective = currentKnowledgeBaseRef (area w) \<or> isCreatingMode) \<and>
      fetch_result net = Inr True \<and>
      (effective = currentKnowledgeBaseRef (fetch_env net (area w)) \<or> isCreatingMode) \<and>
      json_result net = Inl err"
  then show "upload_effects options url isCreatingMode newName indexName net w =
          Fetch url (opt_file options) effective #
          report (json_env net (fetch_env net (area w)))"
    using assms
    by (cases isCreatingMode)
       (auto simp: upload_effects_def customUploadRequest_def effects_since_def proc_defs
          invoke_cases Let_def split: option.splits)
next
  assume "(effective = currentKnowledgeBaseRef (area w) \<or> isCreatingMode) \<and>
      fetch_result net = Inr True \<and>
      (effective = currentKnowledgeBaseRef (fetch_env net (area w)) \<or> isCreatingMode) \<and>
      json_result net = Inr result \<and>
      fst (opt_onSuccess options result (opt_file options)
             (json_env net (fetch_env net (area w)))) \<noteq> None"
  then show "upload_effects options url isCreatingMode newName indexName net w =
          Fetch url (opt_file options) effective #
          UploadOnSuccess result (opt_file options) #
          report (snd (opt_onSuccess options result (opt_file options)
                         (json_env net (fetch_env net (area w)))))"
    using assms
    by (cases isCreatingMode)
       (auto simp: upload_effects_def customUploadRequest_def effects_since_def proc_defs
          invoke_cases Let_def split: option.splits)
next
  assume "(effective = currentKnowledgeBaseRef (area w) \<or> isCreatingMode) \<and>
      fetch_result net = Inr False \<and>
      (effective = currentKnowledgeBaseRef (fetch_env net (area w)) \<or> isCreatingMode)"
  then show "upload_effects options url isCreatingMode newName indexName net w =
          Fetch url (opt_file options) effective #
          UploadOnError (new_Error UploadFailedText) #
          (if fst (opt_onError options (new_Error UploadFailedText)
                     (fetch_env net (area w))) = None
           then [MessageError (UploadFailed (file_name (opt_file options)))]
           else report (snd (opt_onError options (new_Error UploadFailedText)
                               (fetch_env net (area w)))))"
    using assms
    by (cases isCreatingMode)
       (auto simp: upload_effects_def customUploadRequest_def effects_since_def proc_defs
          invoke_cases Let_def split: option.splits)
next
  assume "(effective = currentKnowledgeBaseRef (area w) \<or> isCreatingMode) \<and>
      fetch_result net = Inr ok \<and>
      \<not> (effective = currentKnowledgeBaseRef (fetch_env net (area w)) \<or> isCreatingMode)"
  then show "upload_effects options url isCreatingMode newName indexName net w =
          Fetch url (opt_file options) effective #
          UploadOnError (new_Error KbSwitchedText) #
          (if fst (opt_onError options (new_Error KbSwitchedText)
                     (fetch_env net (area w))) = None
           then [MessageError (UploadFailedKbSwitched (file_name (opt_file options)))]
           else report (snd (opt_onError options (new_Error KbSwitchedText)
                               (fetch_env net (area w)))))"
    using assms
    by (cases isCreatingMode)
       (auto simp: upload_effects_def customUploadRequest_def effects_since_def proc_defs
          invoke_cases Let_def split: option.splits)
next
  assume "\<not> (effective = currentKnowledgeBaseRef (area w) \<or> isCreatingMode)"
  then show "upload_effects options url isCreatingMode newName indexName net w =
          UploadOnError (new_Error KbSwitchedText) #
          (if fst (opt_onError options (new_Error KbSwitchedText) (area w)) = None
           then [MessageError (UploadFailedKbSwitched (file_name (opt_file options)))]
           else [])"
    using assms
    by (cases isCreatingMode)
       (auto simp: upload_effects_def customUploadRequest_def effects_since_def proc_defs
          invoke_cases Let_def split: option.splits)
qed

theorem customUploadRequest_failure_report_witness:
  "upload_effects (quiet_options \<lparr>file_name = ''notes.md'', file_type = ''text/markdown''\<rparr>)
     ''/api/upload'' False [] ''docs''
     \<lparr>fetch_env = scope_becomes ''docs'',
      fetch_result = Inl (JsError ''TypeError'' (OtherText ''Failed to fetch'')),
      json_env = scope_becomes ''docs'', json_result = Inr ''{}''\<rparr>
     (mounted_on ''docs'')
   = [Fetch ''/api/upload'' \<lparr>file_name = ''notes.md'', file_type = ''text/markdown''\<rparr> ''docs'',
      UploadOnError (new_Error UploadFailedText), MessageError (UploadFailed ''notes.md'')] \<and>
   upload_effects (quiet_options \<lparr>file_name = ''notes.md'', file_type = ''text/markdown''\<rparr>)
     ''/api/upload'' False [] ''docs''
     \<lparr>fetch_env = scope_becomes ''docs'', fetch_result = Inr True,
      json_env = scope_becomes ''docs'',
      json_result = Inl (JsError ''SyntaxError'' (OtherText ''Unexpected token''))\<rparr>
     (mounted_on ''docs'')
   = [Fetch ''/api/upload'' \<lparr>file_name = ''notes.md'', file_type = ''text/markdown''\<rparr> ''docs'',
      UploadOnError (new_Error UploadFailedText), MessageError (UploadFailed ''notes.md'')] \<and>
   upload_effects
     ((quiet_options \<lparr>file_name = ''notes.md'', file_type = ''text/markdown''\<rparr>)
        \<lparr>opt_onSuccess := (\<lambda>result f. throws (JsError ''Error'' (OtherText ''boom'')))\<rparr>)
     ''/api/upload'' False [] ''docs''
     \<lparr>fetch_env = scope_becomes ''docs'', fetch_result = Inr True,
      json_env = scope_becomes ''docs'', json_result = Inr ''{}''\<rparr>
     (mounted_on ''docs'')
   = [Fetch ''/api/upload'' \<lparr>file_name = ''notes.md'', file_type = ''text/markdown''\<rparr> ''docs'',
      UploadOnSuccess ''{}'' \<lparr>file_name = ''notes.md'', file_type = ''text/markdown''\<rparr>,
      UploadOnError (new_Error UploadFailedText), MessageError (UploadFailed ''notes.md'')] \<and>
   upload_effects
     ((quiet_options \<lparr>file_name = ''notes.md'', file_type = ''text/markdown''\<rparr>)
        \<lparr>opt_onError := throws\<rparr>)
     ''/api/upload'' False [] ''docs''
     \<lparr>fetch_env = scope_becomes ''docs'', fetch_result = Inr False,
      json_env = scope_becomes ''docs'', json_result = Inr ''{}''\<rparr>
     (mounted_on ''docs'')
   = [Fetch ''/api/upload'' \<lparr>file_name = ''notes.md'', file_type = ''text/markdown''\<rparr> ''docs'',
      UploadOnError (new_Error UploadFailedText), UploadOnError (new_Error UploadFailedText)] \<and>
   upload_effects (quiet_options \<lparr>file_name = ''notes.md'', file_type = ''text/markdown''\<rparr>)
     ''/api/upload'' False [] ''docs''
     \<lparr>fetch_env = scope_becomes ''wiki'', fetch_result = Inr False,
      json_env = scope_becomes ''wiki'', json_result = Inr ''{}''\<rparr>
     (mounted_on ''docs'')
   = [Fetch ''/api/upload'' \<lparr>file_name = ''notes.md'', file_type = ''text/markdown''\<rparr> ''docs'',
      UploadOnError (new_Error KbSwitchedText), MessageError (UploadFailedKbSwitched ''notes.md'')] \<and>
   upload_effects
     ((quiet_options \<lparr>file_name = ''notes.md'', file_type = ''text/markdown''\<rparr>)
        \<lparr>opt_onError := throws\<rparr>)
     ''/api/upload'' False [] ''wiki''
     \<lparr>fetch_env = scope_becomes ''docs'', fetch_result = Inr True,
      json_env = scope_becomes ''docs'', json_result = Inr ''{}''\<rparr>
     (mounted_on ''docs'')
   = [UploadOnError (new_Error KbSwitchedText)]"
  using
    customUploadRequest_failure_report
      [OF refl refl,
       where isCreatingMode = False and newName = "[]" and indexName = "''docs''"
         and w = "mounted_on ''docs''" and url = "''/api/upload''"
         and options = "quiet_options \<lparr>file_name = ''notes.md'', file_type = ''text/markdown''\<rparr>"
         and err = "JsError ''TypeError'' (OtherText ''Failed to fetch'')"
         and net = "\<lparr>fetch_env = scope_becomes ''docs'',
              fetch_result = Inl (JsError ''TypeError'' (OtherText ''Failed to fetch'')),
              json_env = scope_becomes ''docs'', json_result = Inr ''{}''\<rparr>"]
    customUploadRequest_failure_report
      [OF refl refl,
       where isCreatingMode = False and newName = "[]" and indexName = "''docs''"
         and w = "mounted_on ''docs''" and url = "''/api/upload''"
         and options = "quiet_options \<lparr>file_name = ''notes.md'', file_type = ''text/markdown''\<rparr>"
         and err = "JsError ''SyntaxError'' (OtherText ''Unexpected token'')"
         and net = "\<lparr>fetch_env = scope_becomes ''docs'', fetch_result = Inr True,
              json_env = scope_becomes ''docs'',
              json_result = Inl (JsError ''SyntaxError'' (OtherText ''Unexpected token''))\<rparr>"]
    customUploadRequest_failure_report
      [OF refl refl,
       where isCreatingMode = False and newName = "[]" and indexName = "''docs''"
         and w = "mounted_on ''docs''" and url = "''/api/upload''"
         and options = "(quiet_options \<lparr>file_name = ''notes.md'', file_type = ''text/markdown''\<rparr>)
              \<lparr>opt_onSuccess := (\<lambda>result f. throws (JsError ''Error'' (OtherText ''boom'')))\<rparr>"
         and result = "''{}''"
         and net = "\<lparr>fetch_env = scope_becomes ''docs'', fetch_result = Inr True,
              json_env = scope_becomes ''docs'', json_result = Inr ''{}''\<rparr>"]
    customUploadRequest_failure_report
      [OF refl refl,
       where isCreatingMode = False and newName = "[]" and indexName = "''docs''"
         and w = "mounted_on ''docs''" and url = "''/api/upload''"
         and options = "(quiet_options \<lparr>file_name = ''notes.md'', file_type = ''text/markdown''\<rparr>)
              \<lparr>opt_onError := throws\<rparr>"
         and net = "\<lparr>fetch_env = scope_becomes ''docs'', fetch_result = Inr False,
              json_env = scope_becomes ''docs'', json_result = Inr ''{}''\<rparr>"]
    customUploadRequest_failure_report
      [OF refl refl,
       where isCreatingMode = False and newName = "[]" and indexName = "''docs''"
         and w = "mounted_on ''docs''" and url = "''/api/upload''"
         and options = "quiet_options \<lparr>file_name = ''notes.md'', file_type = ''text/markdown''\<rparr>"
         and ok = False
         and net = "\<lparr>fetch_env = scope_becomes ''wiki'', fetch_result = Inr False,
              json_env = scope_becomes ''wiki'', json_result = Inr ''{}''\<rparr>"]
    customUploadRequest_failure_report
      [OF refl refl,
       where isCreatingMode = False and newName = "[]" and indexName = "''wiki''"
         and w = "mounted_on ''docs''" and url = "''/api/upload''"
         and options = "(quiet_options \<lparr>file_name = ''notes.md'', file_type = ''text/markdown''\<rparr>)
              \<lparr>opt_onError := throws\<rparr>"
         and net = "\<lparr>fetch_env = scope_becomes ''docs'', fetch_result = Inr True,
              json_env = scope_becomes ''docs'', json_result = Inr ''{}''\<rparr>"]
  by (simp add: mounted_on_scope quiet_options_def returns_def throws_def scope_becomes_def
        initial_area_def)

text \<open>
  C4, as the claim states it, fails twice. The attempt ends in an exception
  (\<^verbatim>\<open>response.json()\<close> throws) after the scope has moved, and the failure is not
  reported through the error callback: the only effect of the call is the request. And
  the response is not ok after the scope has moved: a notification is shown although
  the scope no longer matches.
\<close>

theorem customUploadRequest_exception_after_switch_unreported:
  "upload_effects (quiet_options \<lparr>file_name = ''notes.md'', file_type = ''text/markdown''\<rparr>)
     ''/api/upload'' False [] ''docs''
     \<lparr>fetch_env = scope_becomes ''docs'', fetch_result = Inr True,
      json_env = scope_becomes ''wiki'',
      json_result = Inl (JsError ''SyntaxError'' (OtherText ''Unexpected token''))\<rparr>
     (mounted_on ''docs'')
   = [Fetch ''/api/upload'' \<lparr>file_name = ''notes.md'', file_type = ''text/markdown''\<rparr> ''docs''] \<and>
   upload_effects (quiet_options \<lparr>file_name = ''notes.md'', file_type = ''text/markdown''\<rparr>)
     ''/api/upload'' False [] ''docs''
     \<lparr>fetch_env = scope_becomes ''wiki'', fetch_result = Inr False,
      json_env = scope_becomes ''wiki'', json_result = Inr ''{}''\<rparr>
     (mounted_on ''docs'')
   = [Fetch ''/api/upload'' \<lparr>file_name = ''notes.md'', file_type = ''text/markdown''\<rparr> ''docs'',
      UploadOnError (new_Error KbSwitchedText),
      MessageError (UploadFailedKbSwitched ''notes.md'')]"
  by (simp add: upload_effects_def effects_since_def mounted_on_scope customUploadRequest_def
        proc_defs invoke_def quiet_options_def returns_def scope_becomes_def initial_area_def
        Let_def)

end
